theory Spec2Isabelle
  imports Complex_Main
begin

section \<open>Tensor scalars\<close>

text \<open>
  The losses of \<^verbatim>\<open>lightning_pose/losses/losses.py\<close> work on torch tensors of 32-bit
  floats. A tensor element is modelled as a real number, plus or minus infinity, or
  not-a-number. The range of the format is modelled: a result whose magnitude reaches
  \<open>2^128 - 2^103\<close> (half a unit in the last place above the largest finite value)
  overflows to an infinity, and one whose magnitude is at most \<open>2^-150\<close> (half the
  smallest subnormal) underflows to zero. Inside the range a result is kept as the exact
  real: rounding to 24 significant bits and the sign of zero are not modelled.
\<close>

datatype flt = Fin real | PInf | NInf | NaN

definition ovf :: real where
  "ovf = 2 ^ 128 - 2 ^ 103"

definition udf :: real where
  "udf = 1 / 2 ^ 150"

definition f32 :: "real \<Rightarrow> flt" where
  "f32 x = (if ovf \<le> x then PInf
            else if x \<le> - ovf then NInf
            else if \<bar>x\<bar> \<le> udf then Fin 0
            else Fin x)"

fun fl_neg :: "flt \<Rightarrow> flt" where
  "fl_neg (Fin a) = Fin (- a)"
| "fl_neg PInf = NInf"
| "fl_neg NInf = PInf"
| "fl_neg NaN = NaN"

fun fl_add :: "flt \<Rightarrow> flt \<Rightarrow> flt" where
  "fl_add (Fin a) (Fin b) = f32 (a + b)"
| "fl_add NaN _ = NaN"
| "fl_add _ NaN = NaN"
| "fl_add PInf NInf = NaN"
| "fl_add NInf PInf = NaN"
| "fl_add PInf _ = PInf"
| "fl_add _ PInf = PInf"
| "fl_add NInf _ = NInf"
| "fl_add _ NInf = NInf"

definition fl_sub :: "flt \<Rightarrow> flt \<Rightarrow> flt" where
  "fl_sub a b = fl_add a (fl_neg b)"

fun fl_mul :: "flt \<Rightarrow> flt \<Rightarrow> flt" where
  "fl_mul (Fin a) (Fin b) = f32 (a * b)"
| "fl_mul NaN _ = NaN"
| "fl_mul _ NaN = NaN"
| "fl_mul PInf (Fin b) = (if b = 0 then NaN else if 0 < b then PInf else NInf)"
| "fl_mul NInf (Fin b) = (if b = 0 then NaN else if 0 < b then NInf else PInf)"
| "fl_mul (Fin a) PInf = (if a = 0 then NaN else if 0 < a then PInf else NInf)"
| "fl_mul (Fin a) NInf = (if a = 0 then NaN else if 0 < a then NInf else PInf)"
| "fl_mul PInf PInf = PInf"
| "fl_mul NInf NInf = PInf"
| "fl_mul PInf NInf = NInf"
| "fl_mul NInf PInf = NInf"

text \<open>Division by (positive) zero gives an infinity, and 0/0 is not-a-number.\<close>

fun fl_div :: "flt \<Rightarrow> flt \<Rightarrow> flt" where
  "fl_div (Fin a) (Fin b) =
     (if b = 0 then (if a = 0 then NaN else if 0 < a then PInf else NInf)
      else f32 (a / b))"
| "fl_div NaN _ = NaN"
| "fl_div _ NaN = NaN"
| "fl_div (Fin a) PInf = Fin 0"
| "fl_div (Fin a) NInf = Fin 0"
| "fl_div PInf (Fin b) = (if 0 \<le> b then PInf else NInf)"
| "fl_div NInf (Fin b) = (if 0 \<le> b then NInf else PInf)"
| "fl_div _ _ = NaN"

fun fl_exp :: "flt \<Rightarrow> flt" where
  "fl_exp (Fin a) = f32 (exp a)"
| "fl_exp PInf = PInf"
| "fl_exp NInf = Fin 0"
| "fl_exp NaN = NaN"

fun fl_sqrt :: "flt \<Rightarrow> flt" where
  "fl_sqrt (Fin a) = (if a < 0 then NaN else Fin (sqrt a))"
| "fl_sqrt PInf = PInf"
| "fl_sqrt NInf = NaN"
| "fl_sqrt NaN = NaN"

text \<open>Comparisons follow IEEE: every comparison with not-a-number is false.\<close>

fun fl_eq :: "flt \<Rightarrow> flt \<Rightarrow> bool" where
  "fl_eq (Fin a) (Fin b) = (a = b)"
| "fl_eq PInf PInf = True"
| "fl_eq NInf NInf = True"
| "fl_eq _ _ = False"

fun fl_lt :: "flt \<Rightarrow> flt \<Rightarrow> bool" where
  "fl_lt (Fin a) (Fin b) = (a < b)"
| "fl_lt NaN _ = False"
| "fl_lt _ NaN = False"
| "fl_lt PInf _ = False"
| "fl_lt _ NInf = False"
| "fl_lt _ _ = True"

fun fl_ge :: "flt \<Rightarrow> flt \<Rightarrow> bool" where
  "fl_ge (Fin a) (Fin b) = (a \<ge> b)"
| "fl_ge NaN _ = False"
| "fl_ge _ NaN = False"
| "fl_ge PInf _ = True"
| "fl_ge _ NInf = True"
| "fl_ge _ _ = False"

text \<open>\<^verbatim>\<open>F.mse_loss(input, target, reduction="none")\<close> on one element.\<close>

definition sq_err :: "flt \<Rightarrow> flt \<Rightarrow> flt" where
  "sq_err a b = fl_mul (fl_sub a b) (fl_sub a b)"

text \<open>\<^verbatim>\<open>torch.sum\<close> and \<^verbatim>\<open>torch.mean\<close> over all elements of a tensor, given as the
  sequence of its elements in row-major order. torch does not fix the order of the
  additions; here they are done one after the other. The mean of no elements is 0/0.\<close>

definition torch_sum :: "flt list \<Rightarrow> flt" where
  "torch_sum xs = foldr fl_add xs (Fin 0)"

definition torch_mean :: "flt list \<Rightarrow> flt" where
  "torch_mean xs = fl_div (torch_sum xs) (Fin (real (length xs)))"

section \<open>Tensors as nested lists\<close>

text \<open>
  A tensor of rank n is a list nested n deep, outermost dimension first. A nested list
  is a tensor when it is rectangular; a tensor whose leading dimension is empty does not
  record its trailing dimensions.
\<close>

type_synonym tensor1 = "flt list"
type_synonym tensor2 = "flt list list"
type_synonym tensor3 = "flt list list list"
type_synonym tensor4 = "flt list list list list"

fun row_len :: "'a list list \<Rightarrow> nat" where
  "row_len [] = 0"
| "row_len (r # _) = length r"

definition rect :: "'a list list \<Rightarrow> bool" where
  "rect xs = list_all (\<lambda>r. length r = row_len xs) xs"

definition wf2 :: "'a list list \<Rightarrow> bool" where
  "wf2 t = rect t"

definition shape2 :: "'a list list \<Rightarrow> nat \<times> nat" where
  "shape2 t = (length t, row_len t)"

definition wf3 :: "'a list list list \<Rightarrow> bool" where
  "wf3 t = (rect t \<and> rect (concat t))"

definition shape3 :: "'a list list list \<Rightarrow> nat \<times> nat \<times> nat" where
  "shape3 t = (length t, row_len t, row_len (concat t))"

definition wf4 :: "'a list list list list \<Rightarrow> bool" where
  "wf4 t = (rect t \<and> rect (concat t) \<and> rect (concat (concat t)))"

definition shape4 :: "'a list list list list \<Rightarrow> nat \<times> nat \<times> nat \<times> nat" where
  "shape4 t = (length t, row_len t, row_len (concat t), row_len (concat (concat t)))"

text \<open>Boolean-mask selection (\<^verbatim>\<open>torch.masked_select\<close>, \<^verbatim>\<open>t[mask]\<close>): the entries whose
  mask bit is set, in their original order.\<close>

definition select :: "bool list \<Rightarrow> 'a list \<Rightarrow> 'a list" where
  "select msk xs = map snd (filter fst (zip msk xs))"

text \<open>A \<^verbatim>\<open>torch.Tensor\<close> of any rank up to four, for the operations that accept any rank.\<close>

datatype tensor = T0 flt | T1 tensor1 | T2 tensor2 | T3 tensor3 | T4 tensor4

fun elements :: "tensor \<Rightarrow> flt list" where
  "elements (T0 x) = [x]"
| "elements (T1 t) = t"
| "elements (T2 t) = concat t"
| "elements (T3 t) = concat (concat t)"
| "elements (T4 t) = concat (concat (concat t))"

fun tmap :: "(flt \<Rightarrow> flt) \<Rightarrow> tensor \<Rightarrow> tensor" where
  "tmap f (T0 x) = T0 (f x)"
| "tmap f (T1 t) = T1 (map f t)"
| "tmap f (T2 t) = T2 (map (map f) t)"
| "tmap f (T3 t) = T3 (map (map (map f)) t)"
| "tmap f (T4 t) = T4 (map (map (map (map f))) t)"

section \<open>Errors and reshaping\<close>

datatype error = TypeError | RuntimeError | KeyError | ValueError | NotImplementedError

text \<open>
  \<^verbatim>\<open>t.reshape(-1, 2)\<close> on a rank-1 tensor and \<^verbatim>\<open>t.reshape(t.shape[0], -1, 2)\<close> on a
  rank-2 tensor: consecutive elements are grouped in twos. torch raises RuntimeError when
  the number of elements is not a multiple of the given dimensions, and also when the
  given dimensions multiply to zero (the inferred dimension is then ambiguous).
\<close>

fun pairs :: "'a list \<Rightarrow> 'a list list" where
  "pairs (x # y # xs) = [x, y] # pairs xs"
| "pairs _ = []"

definition reshape_m1_2 :: "'a list \<Rightarrow> error + 'a list list" where
  "reshape_m1_2 t = (if odd (length t) then Inl RuntimeError else Inr (pairs t))"

definition reshape_b_m1_2 :: "'a list list \<Rightarrow> error + 'a list list list" where
  "reshape_b_m1_2 t =
     (if length t = 0 then Inl RuntimeError
      else if odd (row_len t) then Inl RuntimeError
      else Inr (map pairs t))"

section \<open>The parent class \<^verbatim>\<open>Loss\<close>\<close>

datatype stage = Train | Val | Test

fun stage_str :: "stage \<Rightarrow> string" where
  "stage_str Train = ''train''"
| "stage_str Val = ''val''"
| "stage_str Test = ''test''"

record Loss =
  epsilon :: flt
  log_weight :: flt
  loss_name :: string

definition Loss_init :: "flt \<Rightarrow> flt \<Rightarrow> Loss" where
  "Loss_init eps lw = \<lparr>epsilon = eps, log_weight = lw, loss_name = ''base''\<rparr>"

text \<open>\<^verbatim>\<open>weight = 1.0 / (2.0 * torch.exp(self.log_weight))\<close>\<close>

definition weight :: "'a Loss_scheme \<Rightarrow> flt" where
  "weight self = fl_div (Fin 1) (fl_mul (Fin 2) (fl_exp (log_weight self)))"

text \<open>\<^verbatim>\<open>loss.masked_fill(mask=loss < self.epsilon, value=0.0)\<close>\<close>

definition rectify_epsilon :: "'a Loss_scheme \<Rightarrow> tensor \<Rightarrow> tensor" where
  "rectify_epsilon self loss = tmap (\<lambda>x. if fl_lt x (epsilon self) then Fin 0 else x) loss"

text \<open>\<^verbatim>\<open>self.reduce_methods_dict[method](loss)\<close> with the dictionary
  \<^verbatim>\<open>{"mean": torch.mean, "sum": torch.sum}\<close>; another key raises KeyError.\<close>

definition reduce_loss :: "tensor \<Rightarrow> string \<Rightarrow> error + flt" where
  "reduce_loss loss method =
     (if method = ''mean'' then Inr (torch_mean (elements loss))
      else if method = ''sum'' then Inr (torch_sum (elements loss))
      else Inl KeyError)"

record log_entry =
  name :: string
  val :: flt
  prog_bar :: "bool option"

text \<open>\<^verbatim>\<open>log_loss\<close> is type-checked at run time: its \<^verbatim>\<open>stage\<close> must be one of the
  three literals, so the default \<^verbatim>\<open>stage=None\<close> of the callers is rejected here.\<close>

definition log_loss :: "'a Loss_scheme \<Rightarrow> flt \<Rightarrow> stage option \<Rightarrow> error + log_entry list" where
  "log_loss self loss stg =
     (case stg of
        None \<Rightarrow> Inl TypeError
      | Some s \<Rightarrow> Inr
          [\<lparr>name = stage_str s @ ''_'' @ loss_name self @ ''_loss'', val = loss,
             prog_bar = Some True\<rparr>,
           \<lparr>name = loss_name self @ ''_weight'', val = weight self, prog_bar = None\<rparr>])"

text \<open>The last three lines of every \<^verbatim>\<open>__call__\<close>: \<^verbatim>\<open>reduce_loss(..., method="mean")\<close>,
  \<^verbatim>\<open>log_loss\<close>, and \<^verbatim>\<open>return self.weight * scalar_loss, logs\<close>.\<close>

definition reduce_log_return ::
  "'a Loss_scheme \<Rightarrow> tensor \<Rightarrow> stage option \<Rightarrow> error + (flt \<times> log_entry list)" where
  "reduce_log_return self loss stg =
     (case reduce_loss loss ''mean'' of
        Inl e \<Rightarrow> Inl e
      | Inr scalar_loss \<Rightarrow>
          (case log_loss self scalar_loss stg of
             Inl e \<Rightarrow> Inl e
           | Inr logs \<Rightarrow> Inr (fl_mul (weight self) scalar_loss, logs)))"

section \<open>Heatmap losses\<close>

definition HeatmapMSELoss_init :: "flt \<Rightarrow> Loss" where
  "HeatmapMSELoss_init lw = (Loss_init (Fin 0) lw)\<lparr>loss_name := ''heatmap_mse''\<rparr>"

definition HeatmapWassersteinLoss_init :: "flt \<Rightarrow> Loss" where
  "HeatmapWassersteinLoss_init lw = (Loss_init (Fin 0) lw)\<lparr>loss_name := ''heatmap_wasserstein''\<rparr>"

text \<open>
  \<^verbatim>\<open>HeatmapLoss.remove_nans\<close>. The run-time type check wants both arguments of one
  shape. \<^verbatim>\<open>squeezed_targets\<close> flattens every (batch, keypoint) slice, \<^verbatim>\<open>all_zeroes\<close> is a
  (batch, keypoint) matrix of booleans, and indexing with its negation keeps the slices
  whose bit is set, in row-major order. \<^verbatim>\<open>targets.reshape(shape[0], shape[1], -1)\<close>
  raises RuntimeError when the batch or the keypoint dimension is empty, since the
  inferred dimension is then ambiguous.
\<close>

definition HeatmapLoss_remove_nans :: "tensor4 \<Rightarrow> tensor4 \<Rightarrow> error + (tensor3 \<times> tensor3)" where
  "HeatmapLoss_remove_nans targets predictions =
     (if shape4 targets \<noteq> shape4 predictions then Inl TypeError
      else if length targets = 0 \<or> row_len targets = 0 then Inl RuntimeError
      else
        let squeezed_targets = map (map concat) targets;
            all_zeroes = map (map (list_all (\<lambda>x. fl_eq x (Fin 0)))) squeezed_targets;
            keep = concat (map (map Not) all_zeroes)
        in Inr (select keep (concat targets), select keep (concat predictions)))"

definition HeatmapMSELoss_compute_loss :: "tensor3 \<Rightarrow> tensor3 \<Rightarrow> error + tensor3" where
  "HeatmapMSELoss_compute_loss targets predictions =
     (if shape3 targets \<noteq> shape3 predictions then Inl TypeError
      else Inr (map2 (map2 (map2 sq_err)) targets predictions))"

text \<open>The Sinkhorn divergence of \<^verbatim>\<open>geomloss.SamplesLoss\<close> is not part of the repository:
  it is a parameter. Its result must have one value per slice.\<close>

type_synonym samples_loss = "tensor3 \<Rightarrow> tensor3 \<Rightarrow> error + tensor1"

definition HeatmapWassersteinLoss_compute_loss ::
  "samples_loss \<Rightarrow> tensor3 \<Rightarrow> tensor3 \<Rightarrow> error + tensor1" where
  "HeatmapWassersteinLoss_compute_loss wasserstein_loss targets predictions =
     (if shape3 targets \<noteq> shape3 predictions then Inl TypeError
      else case wasserstein_loss targets predictions of
             Inl e \<Rightarrow> Inl e
           | Inr d \<Rightarrow> if length d = length targets then Inr d else Inl TypeError)"

datatype heatmap_class = HeatmapMSELoss | HeatmapWassersteinLoss samples_loss

fun HeatmapLoss_compute_loss :: "heatmap_class \<Rightarrow> tensor3 \<Rightarrow> tensor3 \<Rightarrow> error + tensor" where
  "HeatmapLoss_compute_loss HeatmapMSELoss t p = map_sum id T3 (HeatmapMSELoss_compute_loss t p)"
| "HeatmapLoss_compute_loss (HeatmapWassersteinLoss w) t p =
     map_sum id T1 (HeatmapWassersteinLoss_compute_loss w t p)"

text \<open>\<^verbatim>\<open>HeatmapLoss.__call__\<close>; the call of \<^verbatim>\<open>rectify_epsilon\<close> is commented out in the
  source.\<close>

definition HeatmapLoss_call ::
  "heatmap_class \<Rightarrow> Loss \<Rightarrow> tensor4 \<Rightarrow> tensor4 \<Rightarrow> stage option \<Rightarrow> error + (flt \<times> log_entry list)" where
  "HeatmapLoss_call cls self heatmaps_targ heatmaps_pred stg =
     (if shape4 heatmaps_targ \<noteq> shape4 heatmaps_pred then Inl TypeError
      else case HeatmapLoss_remove_nans heatmaps_targ heatmaps_pred of
        Inl e \<Rightarrow> Inl e
      | Inr (clean_targets, clean_predictions) \<Rightarrow>
          (case HeatmapLoss_compute_loss cls clean_targets clean_predictions of
             Inl e \<Rightarrow> Inl e
           | Inr elementwise_loss \<Rightarrow> reduce_log_return self elementwise_loss stg))"

section \<open>Regression losses\<close>

definition RegressionMSELoss_init :: "flt \<Rightarrow> flt \<Rightarrow> Loss" where
  "RegressionMSELoss_init eps lw = (Loss_init eps lw)\<lparr>loss_name := ''regression_mse''\<rparr>"

definition RegressionRMSELoss_init :: "flt \<Rightarrow> flt \<Rightarrow> Loss" where
  "RegressionRMSELoss_init eps lw = (RegressionMSELoss_init eps lw)\<lparr>loss_name := ''rmse''\<rparr>"

text \<open>\<^verbatim>\<open>mask = targets == targets\<close>, then \<^verbatim>\<open>torch.masked_select\<close> of both tensors, which
  returns a rank-1 tensor.\<close>

definition RegressionMSELoss_remove_nans :: "tensor2 \<Rightarrow> tensor2 \<Rightarrow> error + (tensor1 \<times> tensor1)" where
  "RegressionMSELoss_remove_nans targets predictions =
     (if shape2 targets \<noteq> shape2 predictions then Inl TypeError
      else
        let msk = map (map (\<lambda>x. fl_eq x x)) targets;
            targets_masked = select (concat msk) (concat targets);
            predictions_masked = select (concat msk) (concat predictions)
        in Inr (targets_masked, predictions_masked))"

definition RegressionMSELoss_compute_loss :: "tensor1 \<Rightarrow> tensor1 \<Rightarrow> error + tensor1" where
  "RegressionMSELoss_compute_loss targets predictions =
     (if length targets \<noteq> length predictions then Inl TypeError
      else Inr (map2 sq_err targets predictions))"

text \<open>\<^verbatim>\<open>RegressionRMSELoss.compute_loss\<close>: both arguments reshaped to rows of two, the
  squared error averaged over each row (\<^verbatim>\<open>dim=1\<close>), then the square root.\<close>

definition RegressionRMSELoss_compute_loss :: "tensor1 \<Rightarrow> tensor1 \<Rightarrow> error + tensor1" where
  "RegressionRMSELoss_compute_loss targets predictions =
     (if length targets \<noteq> length predictions then Inl TypeError
      else case reshape_m1_2 targets of
        Inl e \<Rightarrow> Inl e
      | Inr targs \<Rightarrow>
          (case reshape_m1_2 predictions of
             Inl e \<Rightarrow> Inl e
           | Inr preds \<Rightarrow>
               let loss = map torch_mean (map2 (map2 sq_err) targs preds)
               in Inr (map fl_sqrt loss)))"

text \<open>\<^verbatim>\<open>RegressionRMSELoss\<close> overrides \<^verbatim>\<open>compute_loss\<close> only; \<^verbatim>\<open>remove_nans\<close> and
  \<^verbatim>\<open>__call__\<close> are those of \<^verbatim>\<open>RegressionMSELoss\<close>.\<close>

datatype regression_class = RegressionMSELoss | RegressionRMSELoss

fun Regression_compute_loss :: "regression_class \<Rightarrow> tensor1 \<Rightarrow> tensor1 \<Rightarrow> error + tensor1" where
  "Regression_compute_loss RegressionMSELoss = RegressionMSELoss_compute_loss"
| "Regression_compute_loss RegressionRMSELoss = RegressionRMSELoss_compute_loss"

definition RegressionMSELoss_call ::
  "regression_class \<Rightarrow> Loss \<Rightarrow> tensor2 \<Rightarrow> tensor2 \<Rightarrow> stage option \<Rightarrow> error + (flt \<times> log_entry list)" where
  "RegressionMSELoss_call cls self keypoints_targ keypoints_pred stg =
     (if shape2 keypoints_targ \<noteq> shape2 keypoints_pred then Inl TypeError
      else case RegressionMSELoss_remove_nans keypoints_targ keypoints_pred of
        Inl e \<Rightarrow> Inl e
      | Inr (clean_targets, clean_predictions) \<Rightarrow>
          (case Regression_compute_loss cls clean_targets clean_predictions of
             Inl e \<Rightarrow> Inl e
           | Inr elementwise_loss \<Rightarrow> reduce_log_return self (T1 elementwise_loss) stg))"

section \<open>Temporal loss\<close>

definition TemporalLoss_init :: "flt \<Rightarrow> flt \<Rightarrow> Loss" where
  "TemporalLoss_init eps lw = (Loss_init eps lw)\<lparr>loss_name := ''temporal''\<rparr>"

text \<open>\<^verbatim>\<open>torch.diff(predictions, dim=0)\<close>: each row minus the row before it.\<close>

fun torch_diff :: "tensor2 \<Rightarrow> tensor2" where
  "torch_diff (a # b # rest) = map2 fl_sub b a # torch_diff (b # rest)"
| "torch_diff _ = []"

text \<open>\<^verbatim>\<open>torch.linalg.norm(..., ord=2, dim=2)\<close> on one row of the last dimension.\<close>

definition vector_norm :: "flt list \<Rightarrow> flt" where
  "vector_norm v = fl_sqrt (torch_sum (map (\<lambda>x. fl_mul x x) v))"

definition TemporalLoss_compute_loss :: "tensor2 \<Rightarrow> error + tensor2" where
  "TemporalLoss_compute_loss predictions =
     (let diffs = torch_diff predictions in
      case reshape_b_m1_2 diffs of
        Inl e \<Rightarrow> Inl e
      | Inr reshape \<Rightarrow> Inr (map (map vector_norm) reshape))"

definition TemporalLoss_call ::
  "Loss \<Rightarrow> tensor2 \<Rightarrow> stage option \<Rightarrow> error + (flt \<times> log_entry list)" where
  "TemporalLoss_call self keypoints_pred stg =
     (case TemporalLoss_compute_loss keypoints_pred of
        Inl e \<Rightarrow> Inl e
      | Inr elementwise_loss \<Rightarrow>
          let epsilon_insensitive_loss = rectify_epsilon self (T2 elementwise_loss)
          in reduce_log_return self epsilon_insensitive_loss stg)"

section \<open>PCA loss\<close>

text \<open>
  The PCA module (\<^verbatim>\<open>KeypointPCA\<close>, \<^verbatim>\<open>compute_pca_reprojection_error\<close>,
  \<^verbatim>\<open>format_multiview_data_for_pca\<close>) is not part of the repository: the fitted epsilon
  and the two functions are parameters.
\<close>

record PCALoss = Loss +
  reprojection_error :: "tensor2 \<Rightarrow> error + tensor2"
  format_multiview :: "tensor3 \<Rightarrow> error + tensor2"

definition PCALoss_init ::
  "string \<Rightarrow> nat list list option \<Rightarrow> flt \<Rightarrow> flt \<Rightarrow> (tensor2 \<Rightarrow> error + tensor2) \<Rightarrow>
   (tensor3 \<Rightarrow> error + tensor2) \<Rightarrow> error + PCALoss" where
  "PCALoss_init nm mirrored_column_matches lw pca_epsilon reproj fmt =
     (if nm \<noteq> ''pca_singleview'' \<and> nm \<noteq> ''pca_multiview'' then Inl TypeError
      else if nm = ''pca_multiview'' \<and> mirrored_column_matches = None then Inl ValueError
      else Inr \<lparr>epsilon = pca_epsilon, log_weight = lw, loss_name = nm,
                reprojection_error = reproj, format_multiview = fmt\<rparr>)"

definition PCALoss_compute_loss :: "PCALoss \<Rightarrow> tensor2 \<Rightarrow> error + tensor2" where
  "PCALoss_compute_loss self predictions =
     (case reprojection_error self predictions of
        Inl e \<Rightarrow> Inl e
      | Inr reproj_error \<Rightarrow>
          if length reproj_error = length predictions then Inr reproj_error else Inl TypeError)"

text \<open>The first part of \<^verbatim>\<open>PCALoss.__call__\<close>: the multi-view loss reshapes and regroups
  the predictions, the single-view loss takes them as they are.\<close>

definition PCALoss_format :: "PCALoss \<Rightarrow> tensor2 \<Rightarrow> error + tensor2" where
  "PCALoss_format self keypoints_pred =
     (if loss_name self = ''pca_multiview'' then
        (case reshape_b_m1_2 keypoints_pred of
           Inl e \<Rightarrow> Inl e
         | Inr r \<Rightarrow> format_multiview self r)
      else if loss_name self = ''pca_singleview'' then Inr keypoints_pred
      else Inl NotImplementedError)"

definition PCALoss_call ::
  "PCALoss \<Rightarrow> tensor2 \<Rightarrow> stage option \<Rightarrow> error + (flt \<times> log_entry list)" where
  "PCALoss_call self keypoints_pred stg =
     (case PCALoss_format self keypoints_pred of
        Inl e \<Rightarrow> Inl e
      | Inr keypoints_pred' \<Rightarrow>
          (case PCALoss_compute_loss self keypoints_pred' of
             Inl e \<Rightarrow> Inl e
           | Inr elementwise_loss \<Rightarrow>
               let epsilon_insensitive_loss = rectify_epsilon self (T2 elementwise_loss)
               in reduce_log_return self epsilon_insensitive_loss stg))"

section \<open>Unimodal loss\<close>

text \<open>\<^verbatim>\<open>generate_heatmaps\<close> (\<^verbatim>\<open>lightning_pose.data.utils\<close>) is not part of the repository:
  it is a parameter, called with the keypoints, the original height and width and the
  output shape.\<close>

record UnimodalLoss = Loss +
  original_image_height :: int
  original_image_width :: int
  downsampled_image_height :: int
  downsampled_image_width :: int
  wasserstein_loss :: "samples_loss option"
  generate_heatmaps :: "tensor3 \<Rightarrow> int \<Rightarrow> int \<Rightarrow> int \<times> int \<Rightarrow> error + tensor4"

definition UnimodalLoss_init ::
  "string \<Rightarrow> int \<Rightarrow> int \<Rightarrow> int \<Rightarrow> int \<Rightarrow> samples_loss \<Rightarrow> flt \<Rightarrow> flt \<Rightarrow>
   (tensor3 \<Rightarrow> int \<Rightarrow> int \<Rightarrow> int \<times> int \<Rightarrow> error + tensor4) \<Rightarrow> error + UnimodalLoss" where
  "UnimodalLoss_init nm oh ow dh dw sinkhorn eps lw gen =
     (if nm \<noteq> ''unimodal_mse'' \<and> nm \<noteq> ''unimodal_wasserstein'' then Inl TypeError
      else Inr \<lparr>epsilon = eps, log_weight = lw, loss_name = nm,
                original_image_height = oh, original_image_width = ow,
                downsampled_image_height = dh, downsampled_image_width = dw,
                wasserstein_loss = (if nm = ''unimodal_wasserstein'' then Some sinkhorn else None),
                generate_heatmaps = gen\<rparr>)"

text \<open>\<^verbatim>\<open>UnimodalLoss.compute_loss\<close>. For the Wasserstein variant both tensors are reshaped
  with \<^verbatim>\<open>reshape(-1, height, width)\<close>, which raises RuntimeError when the height or the
  width is zero. A tensor without slices does not record its height and width here, and
  its reshape is taken to succeed.\<close>

definition UnimodalLoss_compute_loss :: "UnimodalLoss \<Rightarrow> tensor4 \<Rightarrow> tensor4 \<Rightarrow> error + tensor" where
  "UnimodalLoss_compute_loss self targets predictions =
     (if shape4 targets \<noteq> shape4 predictions then Inl TypeError
      else if loss_name self = ''unimodal_mse'' then
        Inr (T4 (map2 (map2 (map2 (map2 sq_err))) targets predictions))
      else if loss_name self = ''unimodal_wasserstein'' then
        (if concat targets \<noteq> [] \<and>
            (row_len (concat targets) = 0 \<or> row_len (concat (concat targets)) = 0)
         then Inl RuntimeError
         else
           let targets_rs = concat targets; predictions_rs = concat predictions in
           case wasserstein_loss self of
             None \<Rightarrow> Inl TypeError
           | Some w \<Rightarrow> map_sum id T1 (w targets_rs predictions_rs))
      else Inl NotImplementedError)"

text \<open>\<^verbatim>\<open>UnimodalLoss.__call__\<close>: the type check wants the same batch size in both
  arguments; then reshape, synthesise the ideal heatmaps, \<^verbatim>\<open>compute_loss\<close>,
  \<^verbatim>\<open>reduce_loss\<close>, \<^verbatim>\<open>log_loss\<close>.\<close>

definition UnimodalLoss_call ::
  "UnimodalLoss \<Rightarrow> tensor2 \<Rightarrow> tensor4 \<Rightarrow> stage option \<Rightarrow> error + (flt \<times> log_entry list)" where
  "UnimodalLoss_call self keypoints_pred heatmaps_pred stg =
     (if length keypoints_pred \<noteq> length heatmaps_pred then Inl TypeError
      else case reshape_b_m1_2 keypoints_pred of
        Inl e \<Rightarrow> Inl e
      | Inr keypoints_pred' \<Rightarrow>
          (case generate_heatmaps self keypoints_pred' (original_image_height self)
                  (original_image_width self)
                  (downsampled_image_height self, downsampled_image_width self) of
             Inl e \<Rightarrow> Inl e
           | Inr heatmaps_ideal \<Rightarrow>
               (case UnimodalLoss_compute_loss self heatmaps_ideal heatmaps_pred of
                  Inl e \<Rightarrow> Inl e
                | Inr elementwise_loss \<Rightarrow> reduce_log_return self elementwise_loss stg)))"

section \<open>Shared lemmas\<close>




lemma f32_in_range: "\<bar>x\<bar> < ovf \<Longrightarrow> udf < \<bar>x\<bar> \<Longrightarrow> f32 x = Fin x"
  by (auto simp: f32_def)





text \<open>What each \<^verbatim>\<open>__call__\<close> returns, in terms of its own arguments.\<close>

lemma reduce_log_return_iff:
  "reduce_log_return self el stg = Inr (v, logs) \<longleftrightarrow>
   v = fl_mul (weight self) (torch_mean (elements el)) \<and>
   log_loss self (torch_mean (elements el)) stg = Inr logs"
  by (auto simp: reduce_log_return_def reduce_loss_def split: sum.splits)


lemma RegressionMSELoss_call_iff:
  "RegressionMSELoss_call cls self t p stg = Inr (v, logs) \<longleftrightarrow>
   (\<exists>ct cp el. RegressionMSELoss_remove_nans t p = Inr (ct, cp) \<and>
      Regression_compute_loss cls ct cp = Inr el \<and>
      v = fl_mul (weight self) (torch_mean el) \<and>
      log_loss self (torch_mean el) stg = Inr logs)"
  unfolding RegressionMSELoss_call_def
  by (auto simp: reduce_log_return_iff RegressionMSELoss_remove_nans_def
      split: if_splits sum.splits prod.splits)

lemma TemporalLoss_call_iff:
  "TemporalLoss_call self p stg = Inr (v, logs) \<longleftrightarrow>
   (\<exists>el. TemporalLoss_compute_loss p = Inr el \<and>
      v = fl_mul (weight self) (torch_mean (elements (rectify_epsilon self (T2 el)))) \<and>
      log_loss self (torch_mean (elements (rectify_epsilon self (T2 el)))) stg = Inr logs)"
  unfolding TemporalLoss_call_def Let_def
  by (auto simp: reduce_log_return_iff split: sum.splits)

lemma PCALoss_call_iff:
  "PCALoss_call pself p stg = Inr (v, logs) \<longleftrightarrow>
   (\<exists>kp el. PCALoss_format pself p = Inr kp \<and> PCALoss_compute_loss pself kp = Inr el \<and>
      v = fl_mul (weight pself) (torch_mean (elements (rectify_epsilon pself (T2 el)))) \<and>
      log_loss pself (torch_mean (elements (rectify_epsilon pself (T2 el)))) stg = Inr logs)"
  unfolding PCALoss_call_def Let_def
  by (auto simp: reduce_log_return_iff split: sum.splits)


lemmas eval_defs =
  f32_def ovf_def udf_def fl_sub_def
  Loss_init_def HeatmapMSELoss_init_def RegressionMSELoss_init_def RegressionRMSELoss_init_def
  TemporalLoss_init_def shape2_def shape3_def shape4_def select_def sq_err_def
  reshape_m1_2_def reshape_b_m1_2_def vector_norm_def torch_mean_def torch_sum_def
  weight_def rectify_epsilon_def reduce_loss_def log_loss_def reduce_log_return_def
  HeatmapLoss_remove_nans_def HeatmapMSELoss_compute_loss_def HeatmapLoss_call_def
  RegressionMSELoss_remove_nans_def RegressionMSELoss_compute_loss_def
  RegressionRMSELoss_compute_loss_def RegressionMSELoss_call_def
  TemporalLoss_compute_loss_def TemporalLoss_call_def
  PCALoss_format_def PCALoss_compute_loss_def PCALoss_call_def
  UnimodalLoss_compute_loss_def UnimodalLoss_call_def

section \<open>The weight law\<close>




section \<open>Epsilon-insensitivity\<close>

lemma elements_tmap: "elements (tmap f t) = map f (elements t)"
  by (cases t) (simp_all add: map_concat)

lemma fl_ge_not_lt: "fl_ge x y \<Longrightarrow> \<not> fl_lt x y"
  by (cases x; cases y) simp_all

text \<open>
  Claim C8. \<open>rectify_epsilon\<close> keeps the number of elements; it sets to exactly zero every
  element strictly below epsilon and leaves every element at or above epsilon unchanged.
  On \<open>[0, epsilon - d, epsilon + d]\<close> with \<open>d > 0\<close> it yields \<open>[0, 0, epsilon + d]\<close>.
\<close>

theorem rectify_epsilon_law:
  "length (elements (rectify_epsilon self loss)) = length (elements loss) \<and>
   (\<forall>i<length (elements loss).
      (fl_lt (elements loss ! i) (epsilon self) \<longrightarrow>
         elements (rectify_epsilon self loss) ! i = Fin 0) \<and>
      (fl_ge (elements loss ! i) (epsilon self) \<longrightarrow>
         elements (rectify_epsilon self loss) ! i = elements loss ! i)) \<and>
   (0 < d \<longrightarrow>
      rectify_epsilon (self\<lparr>epsilon := Fin e\<rparr>) (T1 [Fin 0, Fin (e - d), Fin (e + d)])
        = T1 [Fin 0, Fin 0, Fin (e + d)])"
proof (intro conjI allI impI)
  show "length (elements (rectify_epsilon self loss)) = length (elements loss)"
    by (simp add: rectify_epsilon_def elements_tmap)
next
  fix i assume "i < length (elements loss)" "fl_lt (elements loss ! i) (epsilon self)"
  then show "elements (rectify_epsilon self loss) ! i = Fin 0"
    by (simp add: rectify_epsilon_def elements_tmap)
next
  fix i assume "i < length (elements loss)" "fl_ge (elements loss ! i) (epsilon self)"
  then show "elements (rectify_epsilon self loss) ! i = elements loss ! i"
    by (simp add: rectify_epsilon_def elements_tmap fl_ge_not_lt)
next
  assume "0 < d"
  then show "rectify_epsilon (self\<lparr>epsilon := Fin e\<rparr>) (T1 [Fin 0, Fin (e - d), Fin (e + d)])
        = T1 [Fin 0, Fin 0, Fin (e + d)]"
    by (simp add: rectify_epsilon_def)
qed

theorem rectify_epsilon_law_witness:
  "elements (rectify_epsilon (Loss_init (Fin 1) (Fin 0)) (T2 [[Fin (1 / 2), Fin 1], [Fin 2, NaN]])) ! 0
     = Fin 0 \<and>
   elements (rectify_epsilon (Loss_init (Fin 1) (Fin 0)) (T2 [[Fin (1 / 2), Fin 1], [Fin 2, NaN]])) ! 1
     = elements (T2 [[Fin (1 / 2), Fin 1], [Fin 2, NaN]]) ! 1 \<and>
   rectify_epsilon ((Loss_init (Fin 0) (Fin 0))\<lparr>epsilon := Fin 1\<rparr>)
       (T1 [Fin 0, Fin (1 - 1 / 4), Fin (1 + 1 / 4)])
     = T1 [Fin 0, Fin 0, Fin (1 + 1 / 4)]"
proof -
  let ?self = "Loss_init (Fin 1) (Fin 0)"
  let ?loss = "T2 [[Fin (1 / 2), Fin 1], [Fin 2, NaN]]"
  note r = rectify_epsilon_law [of ?self ?loss]
  have len0: "0 < length (elements ?loss)" and len1: "1 < length (elements ?loss)"
    by simp_all
  have lt0: "fl_lt (elements ?loss ! 0) (epsilon ?self)"
    by (simp add: Loss_init_def)
  have ge1: "fl_ge (elements ?loss ! 1) (epsilon ?self)"
    by (simp add: Loss_init_def)
  have a: "elements (rectify_epsilon ?self ?loss) ! 0 = Fin 0"
    using r len0 lt0 by blast
  have b: "elements (rectify_epsilon ?self ?loss) ! 1 = elements ?loss ! 1"
    using r len1 ge1 by blast
  have d: "(0::real) < 1 / 4" by simp
  have c: "rectify_epsilon ((Loss_init (Fin 0) (Fin 0))\<lparr>epsilon := Fin 1\<rparr>)
       (T1 [Fin 0, Fin (1 - 1 / 4), Fin (1 + 1 / 4)]) = T1 [Fin 0, Fin 0, Fin (1 + 1 / 4)]"
    using rectify_epsilon_law [of "Loss_init (Fin 0) (Fin 0)" loss "1 / 4" 1 for loss] d
    by blast
  from a b c show ?thesis by blast
qed

section \<open>The mean of no elements\<close>

lemma fl_mul_NaN [simp]: "fl_mul x NaN = NaN"
  by (cases x) simp_all

text \<open>
  Claim C9 says that the mean of a tensor with no elements fails or is exactly zero, and
  is never not-a-number. On the empty rank-1 tensor that regression masking leaves when
  every target is missing, \<open>reduce_loss\<close> returns not-a-number.
\<close>

theorem reduce_loss_mean_empty_counterexample:
  "reduce_loss (T1 []) ''mean'' = Inr NaN \<and>
   \<not> (isl (reduce_loss (T1 []) ''mean'') \<or> reduce_loss (T1 []) ''mean'' = Inr (Fin 0))"
  by (simp add: reduce_loss_def torch_mean_def torch_sum_def)

text \<open>
  Claim C9, amended. The mean of a tensor with no elements does not fail and is not zero:
  \<open>reduce_loss\<close> returns not-a-number, and the call that reduces such a tensor logs it
  and returns it multiplied by the weight, which is again not-a-number.
\<close>

theorem reduce_loss_mean_empty:
  "elements loss = [] \<Longrightarrow>
   reduce_loss loss ''mean'' = Inr NaN \<and>
   reduce_log_return self loss (Some st) =
     Inr (NaN, [\<lparr>name = stage_str st @ ''_'' @ loss_name self @ ''_loss'', val = NaN,
                   prog_bar = Some True\<rparr>,
                 \<lparr>name = loss_name self @ ''_weight'', val = weight self, prog_bar = None\<rparr>])"
  by (simp add: reduce_log_return_def reduce_loss_def torch_mean_def torch_sum_def log_loss_def)

theorem reduce_loss_mean_empty_witness:
  "elements (T3 [[], []]) = [] \<and> reduce_loss (T3 [[], []]) ''mean'' = Inr NaN"
proof -
  have e: "elements (T3 [[], []]) = []" by simp
  from reduce_loss_mean_empty [OF e] e show ?thesis by blast
qed

section \<open>Masking of missing labels\<close>

lemma length_concat_const:
  "\<forall>r\<in>set xs. length r = n \<Longrightarrow> length (concat xs) = length xs * n"
  by (induction xs) simp_all

lemma rect_length_concat: "rect xs \<Longrightarrow> length (concat xs) = length xs * row_len xs"
  by (simp add: rect_def list_all_iff length_concat_const)

lemma same_shape_length_concat:
  "rect t \<Longrightarrow> rect p \<Longrightarrow> length t = length p \<Longrightarrow> row_len t = row_len p \<Longrightarrow>
   length (concat t) = length (concat p)"
  by (simp add: rect_length_concat)

lemma select_Nil [simp]: "select [] ys = []"
  by (simp add: select_def)

lemma select_Cons [simp]:
  "select (b # bs) (y # ys) = (if b then y # select bs ys else select bs ys)"
  by (simp add: select_def)

lemma select_map_zip:
  "length xs = length ys \<Longrightarrow>
   select (map f xs) ys = map snd (filter (\<lambda>z. f (fst z)) (zip xs ys))"
  by (induction xs ys rule: list_induct2) simp_all

lemma map_fst_filter_zip:
  "length xs = length ys \<Longrightarrow>
   map fst (filter (\<lambda>z. f (fst z)) (zip xs ys)) = filter f xs"
  by (induction xs ys rule: list_induct2) simp_all

lemma select_map_self: "select (map f xs) xs = filter f xs"
  by (induction xs) simp_all

lemma zip_as_nths:
  "length xs = length ys \<Longrightarrow> zip xs ys = map (\<lambda>i. (xs ! i, ys ! i)) [0..<length xs]"
  by (rule nth_equalityI) simp_all

lemma filter_zip_positions:
  assumes "length xs = length ys"
  shows "filter (\<lambda>z. f (fst z)) (zip xs ys)
         = map (\<lambda>i. (xs ! i, ys ! i)) (filter (\<lambda>i. f (xs ! i)) [0..<length xs])"
proof -
  have "filter (\<lambda>z. f (fst z)) (map (\<lambda>i. (xs ! i, ys ! i)) [0..<length xs])
     = map (\<lambda>i. (xs ! i, ys ! i)) (filter (\<lambda>i. f (xs ! i)) [0..<length xs])"
    by (simp add: filter_map comp_def)
  then show ?thesis
    by (simp only: zip_as_nths [OF assms, symmetric])
qed

text \<open>What masking with a test on the first list returns, in three readings.\<close>

lemma masked_zip:
  assumes len: "length xs = length ys"
  shows "zip (select (map f xs) xs) (select (map f xs) ys) = filter (\<lambda>(x, y). f x) (zip xs ys)"
proof -
  have "zip (select (map f xs) xs) (select (map f xs) ys)
        = zip (map fst (filter (\<lambda>z. f (fst z)) (zip xs ys)))
              (map snd (filter (\<lambda>z. f (fst z)) (zip xs ys)))"
    by (simp only: select_map_self select_map_zip [OF len] map_fst_filter_zip [OF len])
  also have "\<dots> = filter (\<lambda>z. f (fst z)) (zip xs ys)"
    by (rule zip_map_fst_snd)
  also have "(\<lambda>z. f (fst z)) = (\<lambda>(x, y). f x)"
    by (rule ext) (simp only: case_prod_beta)
  finally show ?thesis .
qed

lemma masked_fst_positions:
  "select (map f xs) xs = map ((!) xs) (filter (\<lambda>i. f (xs ! i)) [0..<length xs])"
proof -
  have "filter f (map ((!) xs) [0..<length xs])
        = map ((!) xs) (filter (\<lambda>i. f (xs ! i)) [0..<length xs])"
    by (simp only: filter_map comp_def)
  then show ?thesis
    by (simp only: map_nth select_map_self)
qed

lemma masked_snd_positions:
  assumes len: "length xs = length ys"
  shows "select (map f xs) ys = map ((!) ys) (filter (\<lambda>i. f (xs ! i)) [0..<length xs])"
proof -
  have "select (map f xs) ys
        = map snd (map (\<lambda>i. (xs ! i, ys ! i)) (filter (\<lambda>i. f (xs ! i)) [0..<length xs]))"
    by (simp only: select_map_zip [OF len] filter_zip_positions [OF len])
  also have "\<dots> = map ((!) ys) (filter (\<lambda>i. f (xs ! i)) [0..<length xs])"
    by (simp add: comp_def)
  finally show ?thesis .
qed

lemma masked_snd_length:
  assumes len: "length xs = length ys"
  shows "length (select (map f xs) ys) = length (filter f xs)"
proof -
  have "length (select (map f xs) ys) = length (map fst (filter (\<lambda>z. f (fst z)) (zip xs ys)))"
    by (simp add: select_map_zip [OF len])
  then show ?thesis
    by (simp only: map_fst_filter_zip [OF len])
qed

lemma fl_eq_zero: "fl_eq x (Fin 0) \<longleftrightarrow> x = Fin 0"
  by (cases x) simp_all

lemma fl_eq_self: "fl_eq x x \<longleftrightarrow> x \<noteq> NaN"
  by (cases x) simp_all

lemma heatmap_keep_mask:
  "concat (map (map Not) (map (map (list_all (\<lambda>x. fl_eq x (Fin 0)))) (map (map concat) t)))
   = map (\<lambda>s. \<not> list_all (list_all (\<lambda>x. x = Fin 0)) s) (concat t)"
  by (simp add: map_concat comp_def fl_eq_zero list_all_iff)

lemma HeatmapLoss_remove_nans_eq:
  assumes "shape4 targets = shape4 predictions" and "0 < length targets" and "0 < row_len targets"
  shows "HeatmapLoss_remove_nans targets predictions =
     Inr (select (map (\<lambda>s. \<not> list_all (list_all (\<lambda>x. x = Fin 0)) s) (concat targets))
            (concat targets),
          select (map (\<lambda>s. \<not> list_all (list_all (\<lambda>x. x = Fin 0)) s) (concat targets))
            (concat predictions))"
  unfolding HeatmapLoss_remove_nans_def Let_def heatmap_keep_mask
  using assms by simp

lemma regression_mask:
  "concat (map (map (\<lambda>x. fl_eq x x)) t) = map (\<lambda>x. x \<noteq> NaN) (concat t)"
  by (simp add: map_concat fl_eq_self)

lemma RegressionMSELoss_remove_nans_eq:
  assumes "shape2 targets = shape2 predictions"
  shows "RegressionMSELoss_remove_nans targets predictions =
     Inr (select (map (\<lambda>x. x \<noteq> NaN) (concat targets)) (concat targets),
          select (map (\<lambda>x. x \<noteq> NaN) (concat targets)) (concat predictions))"
  unfolding RegressionMSELoss_remove_nans_def Let_def regression_mask
  using assms by simp

lemma wf4_same_length:
  assumes "wf4 t" and "wf4 p" and "shape4 t = shape4 p"
  shows "length (concat t) = length (concat p)"
proof (rule same_shape_length_concat)
  show "rect t" using assms(1) by (simp add: wf4_def)
  show "rect p" using assms(2) by (simp add: wf4_def)
  show "length t = length p" using assms(3) by (simp add: shape4_def)
  show "row_len t = row_len p" using assms(3) by (simp add: shape4_def)
qed

lemma wf2_same_length:
  assumes "wf2 t" and "wf2 p" and "shape2 t = shape2 p"
  shows "length (concat t) = length (concat p)"
proof (rule same_shape_length_concat)
  show "rect t" using assms(1) by (simp add: wf2_def)
  show "rect p" using assms(2) by (simp add: wf2_def)
  show "length t = length p" using assms(3) by (simp add: shape2_def)
  show "row_len t = row_len p" using assms(3) by (simp add: shape2_def)
qed

text \<open>
  Claim C3 says that \<open>remove_nans\<close> returns the restricted tensors for every pair of
  equal-shaped heatmap tensors. On an empty batch the reshape of the targets to
  (batch, keypoint, -1) cannot infer its last dimension and raises RuntimeError.
\<close>

theorem HeatmapLoss_remove_nans_counterexample:
  "wf4 ([] :: tensor4) \<and> shape4 ([] :: tensor4) = shape4 ([] :: tensor4) \<and>
   HeatmapLoss_remove_nans [] [] = Inl RuntimeError"
  by (simp add: wf4_def rect_def shape4_def HeatmapLoss_remove_nans_def)

text \<open>
  Claim C3, amended. On two heatmap tensors of one shape, with at least one batch element
  and at least one keypoint, \<open>remove_nans\<close> returns the (batch, keypoint) slices of
  both tensors at exactly the positions where the target slice is not entirely zero: the
  pairs of slices it returns are the pairs of the input, in their order, whose target
  slice is not all-zero; both results have as many slices as there are target slices
  that are not all-zero.
\<close>

theorem HeatmapLoss_remove_nans_law:
  assumes "wf4 targets" and "wf4 predictions" and "shape4 targets = shape4 predictions"
    and "0 < length targets" and "0 < row_len targets"
  shows "\<exists>ct cp. HeatmapLoss_remove_nans targets predictions = Inr (ct, cp) \<and>
     zip ct cp = filter (\<lambda>(s, q). \<not> list_all (list_all (\<lambda>x. x = Fin 0)) s)
                   (zip (concat targets) (concat predictions)) \<and>
     ct = map ((!) (concat targets))
            (filter (\<lambda>i. \<not> list_all (list_all (\<lambda>x. x = Fin 0)) (concat targets ! i))
               [0..<length (concat targets)]) \<and>
     cp = map ((!) (concat predictions))
            (filter (\<lambda>i. \<not> list_all (list_all (\<lambda>x. x = Fin 0)) (concat targets ! i))
               [0..<length (concat targets)]) \<and>
     length ct = length (filter (\<lambda>s. \<not> list_all (list_all (\<lambda>x. x = Fin 0)) s) (concat targets)) \<and>
     length cp = length (filter (\<lambda>s. \<not> list_all (list_all (\<lambda>x. x = Fin 0)) s) (concat targets))"
proof -
  let ?f = "\<lambda>s. \<not> list_all (list_all (\<lambda>x. x = Fin 0)) s"
  have len: "length (concat targets) = length (concat predictions)"
    by (rule wf4_same_length [OF assms(1) assms(2) assms(3)])
  show ?thesis
    unfolding HeatmapLoss_remove_nans_eq [OF assms(3) assms(4) assms(5)]
  proof (intro exI conjI)
    show "Inr (select (map ?f (concat targets)) (concat targets),
               select (map ?f (concat targets)) (concat predictions))
          = (Inr (select (map ?f (concat targets)) (concat targets),
               select (map ?f (concat targets)) (concat predictions)) :: error + _)"
      by (rule refl)
    show "zip (select (map ?f (concat targets)) (concat targets))
              (select (map ?f (concat targets)) (concat predictions))
          = filter (\<lambda>(s, q). ?f s) (zip (concat targets) (concat predictions))"
      by (rule masked_zip [OF len])
    show "select (map ?f (concat targets)) (concat targets)
          = map ((!) (concat targets))
              (filter (\<lambda>i. ?f (concat targets ! i)) [0..<length (concat targets)])"
      by (rule masked_fst_positions)
    show "select (map ?f (concat targets)) (concat predictions)
          = map ((!) (concat predictions))
              (filter (\<lambda>i. ?f (concat targets ! i)) [0..<length (concat targets)])"
      by (rule masked_snd_positions [OF len])
    show "length (select (map ?f (concat targets)) (concat targets))
          = length (filter ?f (concat targets))"
      by (simp only: select_map_self)
    show "length (select (map ?f (concat targets)) (concat predictions))
          = length (filter ?f (concat targets))"
      by (rule masked_snd_length [OF len])
  qed
qed

theorem HeatmapLoss_remove_nans_law_witness:
  "wf4 [[[[Fin 0, Fin 0]], [[Fin 0, Fin 1]]], [[[Fin 2, Fin 0]], [[Fin 0, Fin 0]]]] \<and>
   (\<exists>ct cp.
      HeatmapLoss_remove_nans
        [[[[Fin 0, Fin 0]], [[Fin 0, Fin 1]]], [[[Fin 2, Fin 0]], [[Fin 0, Fin 0]]]]
        [[[[Fin 5, Fin 6]], [[Fin 7, Fin 8]]], [[[Fin 9, Fin 1]], [[Fin 2, Fin 3]]]]
        = Inr (ct, cp) \<and>
      zip ct cp = [([[Fin 0, Fin 1]], [[Fin 7, Fin 8]]), ([[Fin 2, Fin 0]], [[Fin 9, Fin 1]])])"
proof -
  let ?t = "[[[[Fin 0, Fin 0]], [[Fin 0, Fin 1]]], [[[Fin 2, Fin 0]], [[Fin 0, Fin 0]]]] :: tensor4"
  let ?p = "[[[[Fin 5, Fin 6]], [[Fin 7, Fin 8]]], [[[Fin 9, Fin 1]], [[Fin 2, Fin 3]]]] :: tensor4"
  have wt: "wf4 ?t" and wp: "wf4 ?p"
    by (simp_all add: wf4_def rect_def)
  have sh: "shape4 ?t = shape4 ?p"
    by (simp add: shape4_def)
  have b: "0 < length ?t" and k: "0 < row_len ?t"
    by simp_all
  have f: "filter (\<lambda>(s, q). \<not> list_all (list_all (\<lambda>x. x = Fin 0)) s) (zip (concat ?t) (concat ?p))
      = [([[Fin 0, Fin 1]], [[Fin 7, Fin 8]]), ([[Fin 2, Fin 0]], [[Fin 9, Fin 1]])]"
    by simp
  from HeatmapLoss_remove_nans_law [OF wt wp sh b k] f wt show ?thesis
    by metis
qed

section \<open>Regression masking\<close>

text \<open>
  Claim C4. On two coordinate tensors of one shape, regression \<open>remove_nans\<close> returns two
  rank-1 sequences of equal length: the entries of the flattened targets and of the
  flattened predictions at exactly the positions where the target is not not-a-number,
  in their order, so that the pairs returned are the pairs of the input whose target is
  a number. The test is per scalar entry, and the (batch, keypoint) structure is gone.
\<close>

theorem RegressionMSELoss_remove_nans_law:
  assumes "wf2 targets" and "wf2 predictions" and "shape2 targets = shape2 predictions"
  shows "\<exists>tm pm. RegressionMSELoss_remove_nans targets predictions = Inr (tm, pm) \<and>
     length tm = length pm \<and>
     zip tm pm = filter (\<lambda>(t, p). t \<noteq> NaN) (zip (concat targets) (concat predictions)) \<and>
     tm = map ((!) (concat targets))
            (filter (\<lambda>i. concat targets ! i \<noteq> NaN) [0..<length (concat targets)]) \<and>
     pm = map ((!) (concat predictions))
            (filter (\<lambda>i. concat targets ! i \<noteq> NaN) [0..<length (concat targets)])"
proof -
  let ?f = "\<lambda>x. x \<noteq> NaN"
  have len: "length (concat targets) = length (concat predictions)"
    by (rule wf2_same_length [OF assms])
  show ?thesis
    unfolding RegressionMSELoss_remove_nans_eq [OF assms(3)]
  proof (intro exI conjI)
    show "Inr (select (map ?f (concat targets)) (concat targets),
               select (map ?f (concat targets)) (concat predictions))
          = (Inr (select (map ?f (concat targets)) (concat targets),
               select (map ?f (concat targets)) (concat predictions)) :: error + _)"
      by (rule refl)
    show "length (select (map ?f (concat targets)) (concat targets))
          = length (select (map ?f (concat targets)) (concat predictions))"
      by (simp only: masked_snd_length [OF len] select_map_self)
    show "zip (select (map ?f (concat targets)) (concat targets))
              (select (map ?f (concat targets)) (concat predictions))
          = filter (\<lambda>(t, p). ?f t) (zip (concat targets) (concat predictions))"
      by (rule masked_zip [OF len])
    show "select (map ?f (concat targets)) (concat targets)
          = map ((!) (concat targets))
              (filter (\<lambda>i. ?f (concat targets ! i)) [0..<length (concat targets)])"
      by (rule masked_fst_positions)
    show "select (map ?f (concat targets)) (concat predictions)
          = map ((!) (concat predictions))
              (filter (\<lambda>i. ?f (concat targets ! i)) [0..<length (concat targets)])"
      by (rule masked_snd_positions [OF len])
  qed
qed

theorem RegressionMSELoss_remove_nans_law_witness:
  "wf2 [[Fin 1, NaN], [NaN, Fin 4]] \<and>
   (\<exists>tm pm.
      RegressionMSELoss_remove_nans [[Fin 1, NaN], [NaN, Fin 4]] [[Fin 5, Fin 6], [Fin 7, NaN]]
        = Inr (tm, pm) \<and>
      length tm = length pm \<and> zip tm pm = [(Fin 1, Fin 5), (Fin 4, NaN)])"
proof -
  let ?t = "[[Fin 1, NaN], [NaN, Fin 4]] :: tensor2"
  let ?p = "[[Fin 5, Fin 6], [Fin 7, NaN]] :: tensor2"
  have wt: "wf2 ?t" and wp: "wf2 ?p"
    by (simp_all add: wf2_def rect_def)
  have sh: "shape2 ?t = shape2 ?p"
    by (simp add: shape2_def)
  have f: "filter (\<lambda>(t, p). t \<noteq> NaN) (zip (concat ?t) (concat ?p))
      = [(Fin 1, Fin 5), (Fin 4, NaN)]"
    by simp
  from RegressionMSELoss_remove_nans_law [OF wt wp sh] f wt show ?thesis
    by metis
qed

section \<open>Not-a-number in the predictions\<close>

lemma fl_add_NaN_right [simp]: "fl_add x NaN = NaN"
  by (cases x) simp_all

lemma sq_err_NaN_right [simp]: "sq_err x NaN = NaN"
  by (simp add: sq_err_def fl_sub_def)

lemma torch_sum_Cons: "torch_sum (x # xs) = fl_add x (torch_sum xs)"
  by (simp add: torch_sum_def)

lemma torch_sum_NaN: "NaN \<in> set xs \<Longrightarrow> torch_sum xs = NaN"
  by (induction xs) (auto simp: torch_sum_Cons)

lemma torch_mean_NaN: "NaN \<in> set xs \<Longrightarrow> torch_mean xs = NaN"
  by (simp add: torch_mean_def torch_sum_NaN)

lemma map2_sq_err_NaN:
  assumes "(t, NaN) \<in> set (zip tm pm)"
  shows "NaN \<in> set (map2 sq_err tm pm)"
proof -
  have "sq_err t NaN \<in> set (map2 sq_err tm pm)"
    using assms by (force simp: set_map)
  then show ?thesis by simp
qed

text \<open>
  Claim C10. The mask of regression \<open>remove_nans\<close> is computed from the targets alone:
  the positions kept are those where the target is a number, whatever the predictions
  hold. A not-a-number prediction at a position whose target is a number therefore stays
  among the masked predictions, paired with its target, and the loss call returns
  not-a-number.
\<close>

theorem prediction_nan_propagates:
  assumes "wf2 targets" and "wf2 predictions" and "shape2 targets = shape2 predictions"
    and "i < length (concat targets)"
    and "concat targets ! i \<noteq> NaN" and "concat predictions ! i = NaN"
  shows "\<exists>tm pm. RegressionMSELoss_remove_nans targets predictions = Inr (tm, pm) \<and>
     tm = filter (\<lambda>t. t \<noteq> NaN) (concat targets) \<and>
     pm = map ((!) (concat predictions))
            (filter (\<lambda>i. concat targets ! i \<noteq> NaN) [0..<length (concat targets)]) \<and>
     (concat targets ! i, NaN) \<in> set (zip tm pm) \<and>
     RegressionMSELoss_call RegressionMSELoss self targets predictions (Some st) =
       Inr (NaN, [\<lparr>name = stage_str st @ ''_'' @ loss_name self @ ''_loss'', val = NaN,
                     prog_bar = Some True\<rparr>,
                   \<lparr>name = loss_name self @ ''_weight'', val = weight self, prog_bar = None\<rparr>])"
proof -
  let ?f = "\<lambda>x. x \<noteq> NaN"
  let ?tm = "select (map ?f (concat targets)) (concat targets)"
  let ?pm = "select (map ?f (concat targets)) (concat predictions)"
  have len: "length (concat targets) = length (concat predictions)"
    by (rule wf2_same_length [OF assms(1) assms(2) assms(3)])
  have r: "RegressionMSELoss_remove_nans targets predictions = Inr (?tm, ?pm)"
    by (rule RegressionMSELoss_remove_nans_eq [OF assms(3)])
  have tm: "?tm = filter ?f (concat targets)"
    by (rule select_map_self)
  have pm: "?pm = map ((!) (concat predictions))
            (filter (\<lambda>i. concat targets ! i \<noteq> NaN) [0..<length (concat targets)])"
    by (rule masked_snd_positions [OF len])
  have z: "zip ?tm ?pm = filter (\<lambda>(t, p). ?f t) (zip (concat targets) (concat predictions))"
    by (rule masked_zip [OF len])
  have "zip (concat targets) (concat predictions) ! i = (concat targets ! i, NaN)"
    using assms(4) assms(6) len by simp
  moreover have "i < length (zip (concat targets) (concat predictions))"
    using assms(4) len by simp
  ultimately have "(concat targets ! i, NaN) \<in> set (zip (concat targets) (concat predictions))"
    by (metis nth_mem)
  then have mem: "(concat targets ! i, NaN) \<in> set (zip ?tm ?pm)"
    using assms(5) by (simp add: z)
  have ll: "length ?tm = length ?pm"
    by (simp only: masked_snd_length [OF len] select_map_self)
  have c: "Regression_compute_loss RegressionMSELoss ?tm ?pm = Inr (map2 sq_err ?tm ?pm)"
    using ll by (simp add: RegressionMSELoss_compute_loss_def)
  have m: "torch_mean (map2 sq_err ?tm ?pm) = NaN"
    by (rule torch_mean_NaN [OF map2_sq_err_NaN [OF mem]])
  have call: "RegressionMSELoss_call RegressionMSELoss self targets predictions (Some st) =
       Inr (NaN, [\<lparr>name = stage_str st @ ''_'' @ loss_name self @ ''_loss'', val = NaN,
                     prog_bar = Some True\<rparr>,
                   \<lparr>name = loss_name self @ ''_weight'', val = weight self, prog_bar = None\<rparr>])"
    unfolding RegressionMSELoss_call_iff
    using r c m by (simp add: log_loss_def)
  from r tm pm mem call show ?thesis by blast
qed

theorem prediction_nan_propagates_witness:
  "wf2 [[Fin 1, NaN], [Fin 3, Fin 4]] \<and>
   concat [[Fin 1, NaN], [Fin 3, Fin 4]] ! 2 \<noteq> NaN \<and>
   concat [[Fin 1, Fin 2], [NaN, Fin 4]] ! 2 = NaN \<and>
   (\<exists>logs. RegressionMSELoss_call RegressionMSELoss (RegressionMSELoss_init (Fin 0) (Fin 0))
      [[Fin 1, NaN], [Fin 3, Fin 4]] [[Fin 1, Fin 2], [NaN, Fin 4]] (Some Val) = Inr (NaN, logs))"
proof -
  let ?t = "[[Fin 1, NaN], [Fin 3, Fin 4]] :: tensor2"
  let ?p = "[[Fin 1, Fin 2], [NaN, Fin 4]] :: tensor2"
  have wt: "wf2 ?t" and wp: "wf2 ?p"
    by (simp_all add: wf2_def rect_def)
  have sh: "shape2 ?t = shape2 ?p"
    by (simp add: shape2_def)
  have i: "2 < length (concat ?t)" by simp
  have a: "concat ?t ! 2 \<noteq> NaN" by simp
  have b: "concat ?p ! 2 = NaN" by simp
  from prediction_nan_propagates [OF wt wp sh i a b, of "RegressionMSELoss_init (Fin 0) (Fin 0)" Val]
    wt a b show ?thesis by blast
qed

section \<open>Root mean squared error\<close>

lemma length_pairs: "length (pairs xs) = length xs div 2"
  by (induction xs rule: pairs.induct) simp_all

lemma nth_pairs:
  "k < length xs div 2 \<Longrightarrow> pairs xs ! k = [xs ! (2 * k), xs ! (2 * k + 1)]"
proof (induction xs arbitrary: k rule: pairs.induct)
  case (1 x y xs)
  then show ?case by (cases k) simp_all
qed simp_all

lemma RegressionRMSELoss_compute_loss_eq:
  assumes "length t = length p" and "even (length t)"
  shows "RegressionRMSELoss_compute_loss t p =
     Inr (map fl_sqrt (map torch_mean (map2 (map2 sq_err) (pairs t) (pairs p))))"
  using assms by (simp add: RegressionRMSELoss_compute_loss_def reshape_m1_2_def)

lemma rmse_nth:
  assumes "length t = length p" and "k < length t div 2"
  shows "map fl_sqrt (map torch_mean (map2 (map2 sq_err) (pairs t) (pairs p))) ! k =
     fl_sqrt (torch_mean [sq_err (t ! (2 * k)) (p ! (2 * k)),
                          sq_err (t ! (2 * k + 1)) (p ! (2 * k + 1))])"
proof -
  have kp: "k < length p div 2" using assms by simp
  have "k < length (zip (pairs t) (pairs p))"
    using assms by (simp add: length_pairs)
  then show ?thesis
    by (simp add: nth_pairs [OF assms(2)] nth_pairs [OF kp])
qed

lemma sqrt_25_2_bounds: "35355 / 10000 < sqrt (25 / 2)" "sqrt (25 / 2) < 35356 / 10000"
proof -
  show "35355 / 10000 < sqrt (25 / 2)"
    by (rule real_less_rsqrt) (simp add: power2_eq_square)
  show "sqrt (25 / 2) < 35356 / 10000"
    by (rule real_less_lsqrt) (simp_all add: power2_eq_square)
qed

text \<open>
  Claim C6. On two flat sequences of equal even length, the \<open>compute_loss\<close> of the RMSE
  loss returns one value per pair of consecutive entries (one per keypoint): the square
  root of the mean of the two squared differences. For targets \<open>[0, 0]\<close> and predictions
  \<open>[3, 4]\<close> the value is \<open>sqrt ((9 + 16) / 2) = sqrt 12.5\<close>, between 3.5355 and 3.5356,
  and not the Euclidean norm 5; the call on \<open>[[0, 0]]\<close> and \<open>[[3, 4]]\<close> reduces and
  weights that value.
\<close>

theorem RegressionRMSELoss_compute_loss_law:
  "(length t = length p \<and> even (length t) \<longrightarrow>
      (\<exists>out. RegressionRMSELoss_compute_loss t p = Inr out \<and>
         length out = length t div 2 \<and>
         (\<forall>k<length t div 2.
            out ! k = fl_sqrt (torch_mean [sq_err (t ! (2 * k)) (p ! (2 * k)),
                                          sq_err (t ! (2 * k + 1)) (p ! (2 * k + 1))])))) \<and>
   RegressionRMSELoss_compute_loss [Fin 0, Fin 0] [Fin 3, Fin 4] = Inr [Fin (sqrt (25 / 2))] \<and>
   35355 / 10000 < sqrt (25 / 2) \<and> sqrt (25 / 2) < 35356 / 10000 \<and> sqrt (25 / 2) \<noteq> 5 \<and>
   RegressionMSELoss_call RegressionRMSELoss (RegressionRMSELoss_init (Fin 0) (Fin 0))
       [[Fin 0, Fin 0]] [[Fin 3, Fin 4]] (Some st) =
     Inr (Fin (sqrt (25 / 2) / 2),
          [\<lparr>name = stage_str st @ ''_rmse_loss'', val = Fin (sqrt (25 / 2)), prog_bar = Some True\<rparr>,
           \<lparr>name = ''rmse_weight'', val = Fin (1 / 2), prog_bar = None\<rparr>])"
proof (intro conjI impI)
  assume a: "length t = length p \<and> even (length t)"
  from a have l: "length t = length p" by (rule conjunct1)
  from a have e: "even (length t)" by (rule conjunct2)
  let ?out = "map fl_sqrt (map torch_mean (map2 (map2 sq_err) (pairs t) (pairs p)))"
  have "RegressionRMSELoss_compute_loss t p = Inr ?out"
    by (rule RegressionRMSELoss_compute_loss_eq [OF l e])
  moreover have "length ?out = length t div 2"
    using l by (simp add: length_pairs)
  moreover have "\<forall>k<length t div 2.
      ?out ! k = fl_sqrt (torch_mean [sq_err (t ! (2 * k)) (p ! (2 * k)),
                                     sq_err (t ! (2 * k + 1)) (p ! (2 * k + 1))])"
    using rmse_nth [OF l] by blast
  ultimately show "\<exists>out. RegressionRMSELoss_compute_loss t p = Inr out \<and>
         length out = length t div 2 \<and>
         (\<forall>k<length t div 2.
            out ! k = fl_sqrt (torch_mean [sq_err (t ! (2 * k)) (p ! (2 * k)),
                                          sq_err (t ! (2 * k + 1)) (p ! (2 * k + 1))]))"
    by blast
next
  show ex: "RegressionRMSELoss_compute_loss [Fin 0, Fin 0] [Fin 3, Fin 4] = Inr [Fin (sqrt (25 / 2))]"
    by (simp add: eval_defs)
  show "35355 / 10000 < sqrt (25 / 2)" by (rule sqrt_25_2_bounds(1))
  show "sqrt (25 / 2) < 35356 / 10000" by (rule sqrt_25_2_bounds(2))
  show "sqrt (25 / 2) \<noteq> 5" using sqrt_25_2_bounds(2) by linarith
  have r: "f32 (sqrt (25 / 2)) = Fin (sqrt (25 / 2))"
    using sqrt_25_2_bounds by (intro f32_in_range) (simp_all add: ovf_def udf_def)
  have r2: "f32 (sqrt (25 / 2) / 2) = Fin (sqrt (25 / 2) / 2)"
    using sqrt_25_2_bounds by (intro f32_in_range) (simp_all add: ovf_def udf_def)
  have rn: "RegressionMSELoss_remove_nans [[Fin 0, Fin 0]] [[Fin 3, Fin 4]]
      = Inr ([Fin 0, Fin 0], [Fin 3, Fin 4])"
    by (simp add: RegressionMSELoss_remove_nans_def shape2_def select_def)
  have m: "torch_mean [Fin (sqrt (25 / 2))] = Fin (sqrt (25 / 2))"
    by (simp add: torch_mean_def torch_sum_def r)
  have w: "weight (RegressionRMSELoss_init (Fin 0) (Fin 0)) = Fin (1 / 2)"
    by (simp add: eval_defs)
  have v: "fl_mul (Fin (1 / 2)) (Fin (sqrt (25 / 2))) = Fin (sqrt (25 / 2) / 2)"
    using r2 by simp
  show "RegressionMSELoss_call RegressionRMSELoss (RegressionRMSELoss_init (Fin 0) (Fin 0))
       [[Fin 0, Fin 0]] [[Fin 3, Fin 4]] (Some st) =
     Inr (Fin (sqrt (25 / 2) / 2),
          [\<lparr>name = stage_str st @ ''_rmse_loss'', val = Fin (sqrt (25 / 2)), prog_bar = Some True\<rparr>,
           \<lparr>name = ''rmse_weight'', val = Fin (1 / 2), prog_bar = None\<rparr>])"
    unfolding RegressionMSELoss_call_iff
    using rn ex m w v
    by (simp add: log_loss_def RegressionRMSELoss_init_def RegressionMSELoss_init_def Loss_init_def)
qed

theorem RegressionRMSELoss_compute_loss_law_witness:
  "length [Fin 1, Fin 2, Fin 7, NaN] = length [Fin 4, Fin 6, Fin 7, Fin 1] \<and>
   even (length [Fin 1, Fin 2, Fin 7, NaN]) \<and>
   (\<exists>out. RegressionRMSELoss_compute_loss [Fin 1, Fin 2, Fin 7, NaN] [Fin 4, Fin 6, Fin 7, Fin 1]
        = Inr out \<and> length out = 2 \<and> out ! 0 = Fin (sqrt (25 / 2)) \<and> out ! 1 = NaN)"
proof -
  let ?t = "[Fin 1, Fin 2, Fin 7, NaN]"
  let ?p = "[Fin 4, Fin 6, Fin 7, Fin 1]"
  have h: "length ?t = length ?p \<and> even (length ?t)" by simp
  have k0: "(0::nat) < length ?t div 2" and k1: "(1::nat) < length ?t div 2" by simp_all
  have v0: "fl_sqrt (torch_mean [sq_err (?t ! (2 * 0)) (?p ! (2 * 0)),
                                 sq_err (?t ! (2 * 0 + 1)) (?p ! (2 * 0 + 1))])
            = Fin (sqrt (25 / 2))"
    by (simp add: eval_defs)
  have v1: "fl_sqrt (torch_mean [sq_err (?t ! (2 * 1)) (?p ! (2 * 1)),
                                 sq_err (?t ! (2 * 1 + 1)) (?p ! (2 * 1 + 1))])
            = NaN"
    by (simp add: eval_defs)
  have l2: "length ?t div 2 = 2" by simp
  from RegressionRMSELoss_compute_loss_law [of ?t ?p] h
  obtain out where o: "RegressionRMSELoss_compute_loss ?t ?p = Inr out"
    "length out = length ?t div 2"
    "\<forall>k<length ?t div 2.
       out ! k = fl_sqrt (torch_mean [sq_err (?t ! (2 * k)) (?p ! (2 * k)),
                                      sq_err (?t ! (2 * k + 1)) (?p ! (2 * k + 1))])"
    by blast
  from o(3) k0 v0 have a: "out ! 0 = Fin (sqrt (25 / 2))" by metis
  from o(3) k1 v1 have b: "out ! 1 = NaN" by metis
  from o(1) o(2) l2 a b h show ?thesis by metis
qed

section \<open>The RMSE loss and masking\<close>

lemma all_positions_kept:
  "\<forall>x\<in>set xs. P x \<Longrightarrow> filter (\<lambda>i. P (xs ! i)) [0..<length xs] = [0..<length xs]"
  by (auto simp: filter_id_conv)

text \<open>
  Claim C5 says that the RMSE loss hands its \<open>compute_loss\<close> the full batch, with no
  masking. \<^verbatim>\<open>RegressionRMSELoss\<close> inherits \<^verbatim>\<open>__call__\<close>, which calls \<open>remove_nans\<close>
  first. On a batch of two keypoints whose first target is missing, \<open>compute_loss\<close>
  receives the two remaining entries and the call returns 3/2, where the unmasked batch
  would give not-a-number.
\<close>

theorem RegressionRMSELoss_call_counterexample:
  "RegressionMSELoss_remove_nans [[NaN, NaN, Fin 0, Fin 0]] [[Fin 1, Fin 1, Fin 3, Fin 3]]
     = Inr ([Fin 0, Fin 0], [Fin 3, Fin 3]) \<and>
   RegressionMSELoss_call RegressionRMSELoss (RegressionRMSELoss_init (Fin 0) (Fin 0))
       [[NaN, NaN, Fin 0, Fin 0]] [[Fin 1, Fin 1, Fin 3, Fin 3]] (Some Train)
     = Inr (Fin (3 / 2),
            [\<lparr>name = ''train_rmse_loss'', val = Fin 3, prog_bar = Some True\<rparr>,
             \<lparr>name = ''rmse_weight'', val = Fin (1 / 2), prog_bar = None\<rparr>]) \<and>
   (case RegressionRMSELoss_compute_loss (concat [[NaN, NaN, Fin 0, Fin 0]])
           (concat [[Fin 1, Fin 1, Fin 3, Fin 3]]) of
      Inl e \<Rightarrow> Inl e
    | Inr el \<Rightarrow> reduce_log_return (RegressionRMSELoss_init (Fin 0) (Fin 0)) (T1 el) (Some Train))
     = Inr (NaN,
            [\<lparr>name = ''train_rmse_loss'', val = NaN, prog_bar = Some True\<rparr>,
             \<lparr>name = ''rmse_weight'', val = Fin (1 / 2), prog_bar = None\<rparr>])"
  by (simp add: eval_defs)

text \<open>
  Claim C5, amended. The RMSE loss does route through the masking path: its call applies
  \<open>remove_nans\<close> and hands \<open>compute_loss\<close> the flat sequences of the entries at the
  positions where the target is a number. These are the full batch, flattened, exactly
  when no target entry is not-a-number.
\<close>

theorem RegressionRMSELoss_call_masks:
  assumes "wf2 keypoints_targ" and "wf2 keypoints_pred"
    and "shape2 keypoints_targ = shape2 keypoints_pred"
  shows "RegressionMSELoss_call RegressionRMSELoss self keypoints_targ keypoints_pred stg =
     (case RegressionRMSELoss_compute_loss
             (map ((!) (concat keypoints_targ))
                (filter (\<lambda>i. concat keypoints_targ ! i \<noteq> NaN)
                   [0..<length (concat keypoints_targ)]))
             (map ((!) (concat keypoints_pred))
                (filter (\<lambda>i. concat keypoints_targ ! i \<noteq> NaN)
                   [0..<length (concat keypoints_targ)])) of
        Inl e \<Rightarrow> Inl e
      | Inr el \<Rightarrow> reduce_log_return self (T1 el) stg) \<and>
   ((\<forall>x\<in>set (concat keypoints_targ). x \<noteq> NaN) \<longrightarrow>
      RegressionMSELoss_call RegressionRMSELoss self keypoints_targ keypoints_pred stg =
        (case RegressionRMSELoss_compute_loss (concat keypoints_targ) (concat keypoints_pred) of
           Inl e \<Rightarrow> Inl e
         | Inr el \<Rightarrow> reduce_log_return self (T1 el) stg))"
proof -
  let ?f = "\<lambda>x. x \<noteq> NaN"
  let ?ct = "concat keypoints_targ" and ?cp = "concat keypoints_pred"
  let ?idx = "filter (\<lambda>i. ?ct ! i \<noteq> NaN) [0..<length ?ct]"
  have len: "length ?ct = length ?cp"
    by (rule wf2_same_length [OF assms])
  have r: "RegressionMSELoss_remove_nans keypoints_targ keypoints_pred
      = Inr (map ((!) ?ct) ?idx, map ((!) ?cp) ?idx)"
  proof -
    have e1: "select (map ?f ?ct) ?ct = map ((!) ?ct) ?idx"
      by (rule masked_fst_positions)
    have e2: "select (map ?f ?ct) ?cp = map ((!) ?cp) ?idx"
      by (rule masked_snd_positions [OF len])
    show ?thesis
      by (simp only: RegressionMSELoss_remove_nans_eq [OF assms(3)] e1 e2)
  qed
  have c: "RegressionMSELoss_call RegressionRMSELoss self keypoints_targ keypoints_pred stg =
     (case RegressionRMSELoss_compute_loss (map ((!) ?ct) ?idx) (map ((!) ?cp) ?idx) of
        Inl e \<Rightarrow> Inl e
      | Inr el \<Rightarrow> reduce_log_return self (T1 el) stg)"
    using assms(3) by (simp add: RegressionMSELoss_call_def r)
  have full: "map ((!) ?ct) ?idx = ?ct \<and> map ((!) ?cp) ?idx = ?cp"
    if "\<forall>x\<in>set ?ct. x \<noteq> NaN"
  proof -
    have i: "?idx = [0..<length ?ct]"
      by (rule all_positions_kept [OF that])
    have a: "map ((!) ?ct) [0..<length ?ct] = ?ct"
      by (rule map_nth)
    have "map ((!) ?cp) [0..<length ?cp] = ?cp"
      by (rule map_nth)
    then have b: "map ((!) ?cp) [0..<length ?ct] = ?cp"
      by (simp only: len)
    show ?thesis
      by (simp only: i a b)
  qed
  show ?thesis
    using c full by simp
qed

theorem RegressionRMSELoss_call_masks_witness:
  "wf2 [[Fin 1, NaN, Fin 0, Fin 0]] \<and>
   RegressionMSELoss_call RegressionRMSELoss (RegressionRMSELoss_init (Fin 0) (Fin 0))
       [[Fin 1, NaN, Fin 0, Fin 0]] [[Fin 1, Fin 1, Fin 3, Fin 3]] (Some Train)
     = Inl RuntimeError \<and>
   NaN \<notin> set (concat [[Fin 0, Fin 0]]) \<and>
   RegressionMSELoss_call RegressionRMSELoss (RegressionRMSELoss_init (Fin 0) (Fin 0))
       [[Fin 0, Fin 0]] [[Fin 3, Fin 3]] (Some Train)
     = Inr (Fin (3 / 2),
            [\<lparr>name = ''train_rmse_loss'', val = Fin 3, prog_bar = Some True\<rparr>,
             \<lparr>name = ''rmse_weight'', val = Fin (1 / 2), prog_bar = None\<rparr>])"
proof -
  let ?s = "RegressionRMSELoss_init (Fin 0) (Fin 0)"
  let ?t = "[[Fin 1, NaN, Fin 0, Fin 0]] :: tensor2"
  let ?p = "[[Fin 1, Fin 1, Fin 3, Fin 3]] :: tensor2"
  let ?t2 = "[[Fin 0, Fin 0]] :: tensor2"
  let ?p2 = "[[Fin 3, Fin 3]] :: tensor2"
  have wt: "wf2 ?t" and wp: "wf2 ?p" and wt2: "wf2 ?t2" and wp2: "wf2 ?p2"
    by (simp_all add: wf2_def rect_def)
  have sh: "shape2 ?t = shape2 ?p" and sh2: "shape2 ?t2 = shape2 ?p2"
    by (simp_all add: shape2_def)
  have idx: "filter (\<lambda>i. concat ?t ! i \<noteq> NaN) [0..<length (concat ?t)] = [0, 2, 3]"
    by (simp add: upt_rec)
  have masked: "(case RegressionRMSELoss_compute_loss
             (map ((!) (concat ?t)) [0, 2, 3]) (map ((!) (concat ?p)) [0, 2, 3]) of
        Inl e \<Rightarrow> Inl e
      | Inr el \<Rightarrow> reduce_log_return ?s (T1 el) (Some Train)) = Inl RuntimeError"
    by (simp add: RegressionRMSELoss_compute_loss_def reshape_m1_2_def)
  have a: "RegressionMSELoss_call RegressionRMSELoss ?s ?t ?p (Some Train) = Inl RuntimeError"
    using RegressionRMSELoss_call_masks [OF wt wp sh, of ?s "Some Train", THEN conjunct1]
    by (simp only: idx masked)
  have nn: "\<forall>x\<in>set (concat ?t2). x \<noteq> NaN" by simp
  have unmasked: "(case RegressionRMSELoss_compute_loss (concat ?t2) (concat ?p2) of
        Inl e \<Rightarrow> Inl e
      | Inr el \<Rightarrow> reduce_log_return ?s (T1 el) (Some Train))
     = Inr (Fin (3 / 2),
            [\<lparr>name = ''train_rmse_loss'', val = Fin 3, prog_bar = Some True\<rparr>,
             \<lparr>name = ''rmse_weight'', val = Fin (1 / 2), prog_bar = None\<rparr>])"
    by (simp add: eval_defs)
  have b: "RegressionMSELoss_call RegressionRMSELoss ?s ?t2 ?p2 (Some Train)
     = Inr (Fin (3 / 2),
            [\<lparr>name = ''train_rmse_loss'', val = Fin 3, prog_bar = Some True\<rparr>,
             \<lparr>name = ''rmse_weight'', val = Fin (1 / 2), prog_bar = None\<rparr>])"
    using RegressionRMSELoss_call_masks [OF wt2 wp2 sh2, of ?s "Some Train", THEN conjunct2] nn
    by (simp only: unmasked)
  have nn': "NaN \<notin> set (concat ?t2)" by simp
  from wt a nn' b show ?thesis by blast
qed

section \<open>Temporal differences\<close>

lemma length_torch_diff: "length (torch_diff xs) = length xs - 1"
  by (induction xs rule: torch_diff.induct) simp_all

lemma nth_torch_diff:
  "Suc b < length xs \<Longrightarrow> torch_diff xs ! b = map2 fl_sub (xs ! Suc b) (xs ! b)"
proof (induction xs arbitrary: b rule: torch_diff.induct)
  case (1 a c rest)
  then show ?case by (cases b) simp_all
qed simp_all

lemma row_len_nth0: "xs \<noteq> [] \<Longrightarrow> row_len xs = length (xs ! 0)"
  by (cases xs) simp_all

lemma rect_nth: "rect xs \<Longrightarrow> b < length xs \<Longrightarrow> length (xs ! b) = row_len xs"
  by (simp add: rect_def list_all_length)

lemma vector_norm_pair:
  "vector_norm [x, y] = fl_sqrt (torch_sum [fl_mul x x, fl_mul y y])"
  by (simp add: vector_norm_def)

lemma TemporalLoss_compute_loss_eq:
  assumes "wf2 predictions" and "2 \<le> length predictions" and "even (row_len predictions)"
  shows "TemporalLoss_compute_loss predictions =
     Inr (map (\<lambda>d. map vector_norm (pairs d)) (torch_diff predictions))"
proof -
  have r: "rect predictions" using assms(1) by (simp add: wf2_def)
  have ne: "torch_diff predictions \<noteq> []"
    using assms(2) length_torch_diff [of predictions] by (cases "torch_diff predictions") simp_all
  have p0: "0 < length predictions" using assms(2) by linarith
  have p1: "Suc 0 < length predictions" using assms(2) by linarith
  have d0: "torch_diff predictions ! 0 = map2 fl_sub (predictions ! Suc 0) (predictions ! 0)"
    by (rule nth_torch_diff [OF p1])
  have l0: "length (predictions ! 0) = row_len predictions"
    by (rule rect_nth [OF r p0])
  have l1: "length (predictions ! Suc 0) = row_len predictions"
    by (rule rect_nth [OF r p1])
  have "length (torch_diff predictions ! 0) = row_len predictions"
    by (simp add: d0 l0 l1)
  then have rl: "row_len (torch_diff predictions) = row_len predictions"
    using row_len_nth0 [OF ne] by simp
  show ?thesis
    using ne assms(3) by (simp add: TemporalLoss_compute_loss_def reshape_b_m1_2_def rl)
qed

lemma temporal_entry:
  assumes "wf2 predictions" and "Suc b < length predictions" and "row_len predictions = 2 * K"
    and "k < K"
  shows "length (map vector_norm (pairs (torch_diff predictions ! b))) = K"
    and "map vector_norm (pairs (torch_diff predictions ! b)) ! k =
      vector_norm [fl_sub (predictions ! Suc b ! (2 * k)) (predictions ! b ! (2 * k)),
                   fl_sub (predictions ! Suc b ! (2 * k + 1)) (predictions ! b ! (2 * k + 1))]"
proof -
  have r: "rect predictions" using assms(1) by (simp add: wf2_def)
  let ?d = "torch_diff predictions ! b"
  have d: "?d = map2 fl_sub (predictions ! Suc b) (predictions ! b)"
    by (rule nth_torch_diff [OF assms(2)])
  have l1: "length (predictions ! Suc b) = 2 * K"
    using rect_nth [OF r assms(2)] assms(3) by simp
  have l0: "length (predictions ! b) = 2 * K"
    using rect_nth [OF r, of b] assms(2) assms(3) by simp
  have ld: "length ?d = 2 * K"
    by (simp add: d l1 l0)
  show "length (map vector_norm (pairs ?d)) = K"
    by (simp add: length_pairs ld)
  have kk: "k < length ?d div 2"
    using assms(4) by (simp add: ld)
  have i0: "2 * k < 2 * K" and i1: "2 * k + 1 < 2 * K"
    using assms(4) by simp_all
  have e0: "?d ! (2 * k) = fl_sub (predictions ! Suc b ! (2 * k)) (predictions ! b ! (2 * k))"
    using i0 by (simp add: d l1 l0)
  have e1: "?d ! (2 * k + 1) =
      fl_sub (predictions ! Suc b ! (2 * k + 1)) (predictions ! b ! (2 * k + 1))"
    using i1 by (simp add: d l1 l0)
  have "map vector_norm (pairs ?d) ! k = vector_norm (pairs ?d ! k)"
    using kk by (simp add: length_pairs)
  also have "pairs ?d ! k = [?d ! (2 * k), ?d ! (2 * k + 1)]"
    by (rule nth_pairs [OF kk])
  finally show "map vector_norm (pairs ?d) ! k =
      vector_norm [fl_sub (predictions ! Suc b ! (2 * k)) (predictions ! b ! (2 * k)),
                   fl_sub (predictions ! Suc b ! (2 * k + 1)) (predictions ! b ! (2 * k + 1))]"
    by (simp only: e0 e1)
qed

text \<open>
  Claim C7. On a tensor of predicted coordinates of shape (batch, 2K) with at least two
  rows, the \<open>compute_loss\<close> of the temporal loss returns a tensor of shape
  (batch - 1, K): entry (b, k) is the Euclidean norm of the difference between rows
  \<open>b + 1\<close> and \<open>b\<close> at the coordinate pair of keypoint \<open>k\<close>. For one keypoint at
  (0, 0), (3, 4), (3, 4) the result is 5 and 0.
\<close>

theorem TemporalLoss_compute_loss_law:
  "(wf2 predictions \<and> 2 \<le> length predictions \<and> row_len predictions = 2 * K \<longrightarrow>
      (\<exists>out. TemporalLoss_compute_loss predictions = Inr out \<and>
         length out = length predictions - 1 \<and>
         (\<forall>b<length predictions - 1.
            length (out ! b) = K \<and>
            (\<forall>k<K. out ! b ! k =
               fl_sqrt (torch_sum
                 [fl_mul (fl_sub (predictions ! Suc b ! (2 * k)) (predictions ! b ! (2 * k)))
                         (fl_sub (predictions ! Suc b ! (2 * k)) (predictions ! b ! (2 * k))),
                  fl_mul (fl_sub (predictions ! Suc b ! (2 * k + 1)) (predictions ! b ! (2 * k + 1)))
                         (fl_sub (predictions ! Suc b ! (2 * k + 1))
                            (predictions ! b ! (2 * k + 1)))]))))) \<and>
   TemporalLoss_compute_loss [[Fin 0, Fin 0], [Fin 3, Fin 4], [Fin 3, Fin 4]]
     = Inr [[Fin 5], [Fin 0]]"
proof (intro conjI impI)
  assume a: "wf2 predictions \<and> 2 \<le> length predictions \<and> row_len predictions = 2 * K"
  from a have w: "wf2 predictions" by (rule conjunct1)
  from a have b2: "2 \<le> length predictions" by blast
  from a have rl: "row_len predictions = 2 * K" by blast
  have ev: "even (row_len predictions)" by (simp add: rl)
  let ?out = "map (\<lambda>d. map vector_norm (pairs d)) (torch_diff predictions)"
  have e: "TemporalLoss_compute_loss predictions = Inr ?out"
    by (rule TemporalLoss_compute_loss_eq [OF w b2 ev])
  have l: "length ?out = length predictions - 1"
    by (simp add: length_torch_diff)
  have rows: "length (?out ! b) = K \<and>
      (\<forall>k<K. ?out ! b ! k =
         fl_sqrt (torch_sum
           [fl_mul (fl_sub (predictions ! Suc b ! (2 * k)) (predictions ! b ! (2 * k)))
                   (fl_sub (predictions ! Suc b ! (2 * k)) (predictions ! b ! (2 * k))),
            fl_mul (fl_sub (predictions ! Suc b ! (2 * k + 1)) (predictions ! b ! (2 * k + 1)))
                   (fl_sub (predictions ! Suc b ! (2 * k + 1)) (predictions ! b ! (2 * k + 1)))]))"
    if bb: "b < length predictions - 1" for b
  proof -
    have sb: "Suc b < length predictions" using bb by linarith
    have bd: "b < length (torch_diff predictions)" using bb by (simp add: length_torch_diff)
    have ob: "?out ! b = map vector_norm (pairs (torch_diff predictions ! b))"
      using bd by simp
    have ld: "length (torch_diff predictions ! b) = 2 * K"
    proof -
      have r: "rect predictions" using w by (simp add: wf2_def)
      have "length (predictions ! Suc b) = 2 * K"
        using rect_nth [OF r sb] rl by simp
      moreover have "length (predictions ! b) = 2 * K"
        using rect_nth [OF r, of b] sb rl by simp
      ultimately show ?thesis
        by (simp add: nth_torch_diff [OF sb])
    qed
    have len: "length (?out ! b) = K"
      by (simp add: ob length_pairs ld)
    have ent: "?out ! b ! k =
         fl_sqrt (torch_sum
           [fl_mul (fl_sub (predictions ! Suc b ! (2 * k)) (predictions ! b ! (2 * k)))
                   (fl_sub (predictions ! Suc b ! (2 * k)) (predictions ! b ! (2 * k))),
            fl_mul (fl_sub (predictions ! Suc b ! (2 * k + 1)) (predictions ! b ! (2 * k + 1)))
                   (fl_sub (predictions ! Suc b ! (2 * k + 1)) (predictions ! b ! (2 * k + 1)))])"
      if kk: "k < K" for k
      by (simp only: ob temporal_entry(2) [OF w sb rl kk] vector_norm_pair)
    from len ent show ?thesis by blast
  qed
  from e l rows show "\<exists>out. TemporalLoss_compute_loss predictions = Inr out \<and>
         length out = length predictions - 1 \<and>
         (\<forall>b<length predictions - 1.
            length (out ! b) = K \<and>
            (\<forall>k<K. out ! b ! k =
               fl_sqrt (torch_sum
                 [fl_mul (fl_sub (predictions ! Suc b ! (2 * k)) (predictions ! b ! (2 * k)))
                         (fl_sub (predictions ! Suc b ! (2 * k)) (predictions ! b ! (2 * k))),
                  fl_mul (fl_sub (predictions ! Suc b ! (2 * k + 1)) (predictions ! b ! (2 * k + 1)))
                         (fl_sub (predictions ! Suc b ! (2 * k + 1))
                            (predictions ! b ! (2 * k + 1)))])))"
    by blast
next
  show "TemporalLoss_compute_loss [[Fin 0, Fin 0], [Fin 3, Fin 4], [Fin 3, Fin 4]]
     = Inr [[Fin 5], [Fin 0]]"
    by (simp add: eval_defs)
qed

theorem TemporalLoss_compute_loss_law_witness:
  "wf2 [[Fin 0, Fin 0, Fin 1, Fin 1], [Fin 3, Fin 4, Fin 1, NaN]] \<and>
   (\<exists>out. TemporalLoss_compute_loss [[Fin 0, Fin 0, Fin 1, Fin 1], [Fin 3, Fin 4, Fin 1, NaN]]
        = Inr out \<and> length out = 1 \<and> length (out ! 0) = 2 \<and>
      out ! 0 ! 0 = Fin 5 \<and> out ! 0 ! 1 = NaN)"
proof -
  let ?p = "[[Fin 0, Fin 0, Fin 1, Fin 1], [Fin 3, Fin 4, Fin 1, NaN]] :: tensor2"
  have h: "wf2 ?p \<and> 2 \<le> length ?p \<and> row_len ?p = 2 * 2"
    by (simp add: wf2_def rect_def)
  from TemporalLoss_compute_loss_law [of ?p 2] h
  obtain out where o: "TemporalLoss_compute_loss ?p = Inr out"
    "length out = length ?p - 1"
    "\<forall>b<length ?p - 1.
        length (out ! b) = 2 \<and>
        (\<forall>k<2. out ! b ! k =
           fl_sqrt (torch_sum
             [fl_mul (fl_sub (?p ! Suc b ! (2 * k)) (?p ! b ! (2 * k)))
                     (fl_sub (?p ! Suc b ! (2 * k)) (?p ! b ! (2 * k))),
              fl_mul (fl_sub (?p ! Suc b ! (2 * k + 1)) (?p ! b ! (2 * k + 1)))
                     (fl_sub (?p ! Suc b ! (2 * k + 1)) (?p ! b ! (2 * k + 1)))]))"
    by blast
  have b0: "(0::nat) < length ?p - 1" by simp
  from o(3) b0 have r0: "length (out ! 0) = 2 \<and>
        (\<forall>k<2. out ! 0 ! k =
           fl_sqrt (torch_sum
             [fl_mul (fl_sub (?p ! Suc 0 ! (2 * k)) (?p ! 0 ! (2 * k)))
                     (fl_sub (?p ! Suc 0 ! (2 * k)) (?p ! 0 ! (2 * k))),
              fl_mul (fl_sub (?p ! Suc 0 ! (2 * k + 1)) (?p ! 0 ! (2 * k + 1)))
                     (fl_sub (?p ! Suc 0 ! (2 * k + 1)) (?p ! 0 ! (2 * k + 1)))]))"
    by blast
  from r0 have e0: "out ! 0 ! 0 =
           fl_sqrt (torch_sum
             [fl_mul (fl_sub (?p ! Suc 0 ! (2 * 0)) (?p ! 0 ! (2 * 0)))
                     (fl_sub (?p ! Suc 0 ! (2 * 0)) (?p ! 0 ! (2 * 0))),
              fl_mul (fl_sub (?p ! Suc 0 ! (2 * 0 + 1)) (?p ! 0 ! (2 * 0 + 1)))
                     (fl_sub (?p ! Suc 0 ! (2 * 0 + 1)) (?p ! 0 ! (2 * 0 + 1)))])"
    by simp
  from r0 have e1: "out ! 0 ! 1 =
           fl_sqrt (torch_sum
             [fl_mul (fl_sub (?p ! Suc 0 ! (2 * 1)) (?p ! 0 ! (2 * 1)))
                     (fl_sub (?p ! Suc 0 ! (2 * 1)) (?p ! 0 ! (2 * 1))),
              fl_mul (fl_sub (?p ! Suc 0 ! (2 * 1 + 1)) (?p ! 0 ! (2 * 1 + 1)))
                     (fl_sub (?p ! Suc 0 ! (2 * 1 + 1)) (?p ! 0 ! (2 * 1 + 1)))])"
    by simp
  have v0: "out ! 0 ! 0 = Fin 5"
    unfolding e0 by (simp add: eval_defs)
  have v1: "out ! 0 ! 1 = NaN"
    unfolding e1 by (simp add: eval_defs)
  have l: "length out = 1" using o(2) by simp
  from h o(1) l r0 v0 v1 show ?thesis by blast
qed

section \<open>Where epsilon-insensitivity is applied\<close>

lemma f32_zero [simp]: "f32 0 = Fin 0"
  by (simp add: f32_def ovf_def udf_def)

lemma torch_sum_zeros: "\<forall>x\<in>set xs. x = Fin 0 \<Longrightarrow> torch_sum xs = Fin 0"
  by (induction xs) (simp_all add: torch_sum_def)

lemma torch_mean_zeros:
  assumes "\<forall>x\<in>set xs. x = Fin 0" and "xs \<noteq> []"
  shows "torch_mean xs = Fin 0"
  using assms by (simp add: torch_mean_def torch_sum_zeros)

lemma rectified_mean_zero:
  assumes "elements el \<noteq> []" and "\<forall>x\<in>set (elements el). fl_lt x (epsilon self)"
  shows "torch_mean (elements (rectify_epsilon self el)) = Fin 0"
proof (rule torch_mean_zeros)
  show "\<forall>x\<in>set (elements (rectify_epsilon self el)). x = Fin 0"
    using assms(2) by (auto simp: rectify_epsilon_def elements_tmap)
  show "elements (rectify_epsilon self el) \<noteq> []"
    using assms(1) by (simp add: rectify_epsilon_def elements_tmap)
qed

lemma weight_epsilon_update [simp]: "weight (self\<lparr>epsilon := e\<rparr>) = weight self"
  by (simp add: weight_def)

lemma log_loss_epsilon_update [simp]:
  "log_loss (self\<lparr>epsilon := e\<rparr>) l stg = log_loss self l stg"
  by (cases stg) (simp_all add: log_loss_def)

lemma reduce_log_return_epsilon_update [simp]:
  "reduce_log_return (self\<lparr>epsilon := e\<rparr>) el stg = reduce_log_return self el stg"
  by (simp add: reduce_log_return_def cong: sum.case_cong)

lemma UnimodalLoss_compute_loss_epsilon_update [simp]:
  "UnimodalLoss_compute_loss (self\<lparr>epsilon := e\<rparr>) t p = UnimodalLoss_compute_loss self t p"
  by (simp add: UnimodalLoss_compute_loss_def)

text \<open>
  Claim C2 says that the unimodal losses apply \<open>rectify_epsilon\<close> between the elementwise
  loss and the mean. With epsilon 1, an ideal heatmap of one pixel of value 1 and a
  predicted value 3/2, the elementwise loss 1/4 is below epsilon: the call returns the
  weight times 1/4, where the rectified pipeline would return zero.
\<close>

theorem UnimodalLoss_rectify_counterexample:
  "UnimodalLoss_call
     \<lparr>epsilon = Fin 1, log_weight = Fin 0, loss_name = ''unimodal_mse'',
       original_image_height = 2, original_image_width = 2,
       downsampled_image_height = 1, downsampled_image_width = 1,
       wasserstein_loss = None, generate_heatmaps = (\<lambda>k h w s. Inr [[[[Fin 1]]]])\<rparr>
     [[Fin 0, Fin 0]] [[[[Fin (3 / 2)]]]] (Some Train)
   = Inr (Fin (1 / 8),
          [\<lparr>name = ''train_unimodal_mse_loss'', val = Fin (1 / 4), prog_bar = Some True\<rparr>,
           \<lparr>name = ''unimodal_mse_weight'', val = Fin (1 / 2), prog_bar = None\<rparr>]) \<and>
   (case UnimodalLoss_compute_loss
           \<lparr>epsilon = Fin 1, log_weight = Fin 0, loss_name = ''unimodal_mse'',
             original_image_height = 2, original_image_width = 2,
             downsampled_image_height = 1, downsampled_image_width = 1,
             wasserstein_loss = None, generate_heatmaps = (\<lambda>k h w s. Inr [[[[Fin 1]]]])\<rparr>
           [[[[Fin 1]]]] [[[[Fin (3 / 2)]]]] of
      Inl e \<Rightarrow> Inl e
    | Inr el \<Rightarrow>
        reduce_log_return
          \<lparr>epsilon = Fin 1, log_weight = Fin 0, loss_name = ''unimodal_mse'',
            original_image_height = 2, original_image_width = 2,
            downsampled_image_height = 1, downsampled_image_width = 1,
            wasserstein_loss = None, generate_heatmaps = (\<lambda>k h w s. Inr [[[[Fin 1]]]])\<rparr>
          (rectify_epsilon
             \<lparr>epsilon = Fin 1, log_weight = Fin 0, loss_name = ''unimodal_mse'',
               original_image_height = 2, original_image_width = 2,
               downsampled_image_height = 1, downsampled_image_width = 1,
               wasserstein_loss = None, generate_heatmaps = (\<lambda>k h w s. Inr [[[[Fin 1]]]])\<rparr> el)
          (Some Train))
   = Inr (Fin 0,
          [\<lparr>name = ''train_unimodal_mse_loss'', val = Fin 0, prog_bar = Some True\<rparr>,
           \<lparr>name = ''unimodal_mse_weight'', val = Fin (1 / 2), prog_bar = None\<rparr>])"
  by (simp add: eval_defs)

text \<open>
  Claim C2, amended. The temporal and PCA losses apply \<open>rectify_epsilon\<close> between the
  elementwise loss and the mean, so that a call whose elementwise losses are all below
  epsilon logs the scalar zero. The unimodal losses do not: like the heatmap and the
  regression losses they go from \<open>compute_loss\<close> straight to the mean, and what they
  return does not depend on epsilon.
\<close>

theorem rectify_epsilon_in_pipeline:
  "TemporalLoss_call tself tp stg =
     (case TemporalLoss_compute_loss tp of
        Inl err \<Rightarrow> Inl err
      | Inr el \<Rightarrow> reduce_log_return tself (rectify_epsilon tself (T2 el)) stg) \<and>
   (TemporalLoss_compute_loss tp = Inr tel \<and> concat tel \<noteq> [] \<and>
    (\<forall>x\<in>set (concat tel). fl_lt x (epsilon tself)) \<longrightarrow>
      TemporalLoss_call tself tp (Some st) =
        Inr (fl_mul (weight tself) (Fin 0),
             [\<lparr>name = stage_str st @ ''_'' @ loss_name tself @ ''_loss'', val = Fin 0,
                 prog_bar = Some True\<rparr>,
              \<lparr>name = loss_name tself @ ''_weight'', val = weight tself, prog_bar = None\<rparr>])) \<and>
   PCALoss_call pself pp stg =
     (case PCALoss_format pself pp of
        Inl err \<Rightarrow> Inl err
      | Inr kp \<Rightarrow>
          (case PCALoss_compute_loss pself kp of
             Inl err \<Rightarrow> Inl err
           | Inr el \<Rightarrow> reduce_log_return pself (rectify_epsilon pself (T2 el)) stg)) \<and>
   (PCALoss_format pself pp = Inr pkp \<and> PCALoss_compute_loss pself pkp = Inr pel \<and>
    concat pel \<noteq> [] \<and> (\<forall>x\<in>set (concat pel). fl_lt x (epsilon pself)) \<longrightarrow>
      PCALoss_call pself pp (Some st) =
        Inr (fl_mul (weight pself) (Fin 0),
             [\<lparr>name = stage_str st @ ''_'' @ loss_name pself @ ''_loss'', val = Fin 0,
                 prog_bar = Some True\<rparr>,
              \<lparr>name = loss_name pself @ ''_weight'', val = weight pself, prog_bar = None\<rparr>])) \<and>
   UnimodalLoss_call uself up uh stg =
     (if length up \<noteq> length uh then Inl TypeError
      else case reshape_b_m1_2 up of
        Inl err \<Rightarrow> Inl err
      | Inr kp \<Rightarrow>
          (case generate_heatmaps uself kp (original_image_height uself)
                  (original_image_width uself)
                  (downsampled_image_height uself, downsampled_image_width uself) of
             Inl err \<Rightarrow> Inl err
           | Inr ideal \<Rightarrow>
               (case UnimodalLoss_compute_loss uself ideal uh of
                  Inl err \<Rightarrow> Inl err
                | Inr el \<Rightarrow> reduce_log_return uself el stg))) \<and>
   UnimodalLoss_call (uself\<lparr>epsilon := e\<rparr>) up uh stg = UnimodalLoss_call uself up uh stg \<and>
   HeatmapLoss_call hcls (hself\<lparr>epsilon := e\<rparr>) ht hp stg = HeatmapLoss_call hcls hself ht hp stg \<and>
   RegressionMSELoss_call rcls (rself\<lparr>epsilon := e\<rparr>) rt rp stg
     = RegressionMSELoss_call rcls rself rt rp stg"
proof (intro conjI impI)
  show "TemporalLoss_call tself tp stg =
     (case TemporalLoss_compute_loss tp of
        Inl err \<Rightarrow> Inl err
      | Inr el \<Rightarrow> reduce_log_return tself (rectify_epsilon tself (T2 el)) stg)"
    by (simp add: TemporalLoss_call_def Let_def split: sum.splits)
next
  assume a: "TemporalLoss_compute_loss tp = Inr tel \<and> concat tel \<noteq> [] \<and>
    (\<forall>x\<in>set (concat tel). fl_lt x (epsilon tself))"
  then have m: "torch_mean (elements (rectify_epsilon tself (T2 tel))) = Fin 0"
    by (intro rectified_mean_zero) simp_all
  show "TemporalLoss_call tself tp (Some st) =
        Inr (fl_mul (weight tself) (Fin 0),
             [\<lparr>name = stage_str st @ ''_'' @ loss_name tself @ ''_loss'', val = Fin 0,
                 prog_bar = Some True\<rparr>,
              \<lparr>name = loss_name tself @ ''_weight'', val = weight tself, prog_bar = None\<rparr>])"
    unfolding TemporalLoss_call_iff using a m by (simp add: log_loss_def)
next
  show "PCALoss_call pself pp stg =
     (case PCALoss_format pself pp of
        Inl err \<Rightarrow> Inl err
      | Inr kp \<Rightarrow>
          (case PCALoss_compute_loss pself kp of
             Inl err \<Rightarrow> Inl err
           | Inr el \<Rightarrow> reduce_log_return pself (rectify_epsilon pself (T2 el)) stg))"
    by (simp add: PCALoss_call_def Let_def split: sum.splits)
next
  assume a: "PCALoss_format pself pp = Inr pkp \<and> PCALoss_compute_loss pself pkp = Inr pel \<and>
    concat pel \<noteq> [] \<and> (\<forall>x\<in>set (concat pel). fl_lt x (epsilon pself))"
  then have m: "torch_mean (elements (rectify_epsilon pself (T2 pel))) = Fin 0"
    by (intro rectified_mean_zero) simp_all
  show "PCALoss_call pself pp (Some st) =
        Inr (fl_mul (weight pself) (Fin 0),
             [\<lparr>name = stage_str st @ ''_'' @ loss_name pself @ ''_loss'', val = Fin 0,
                 prog_bar = Some True\<rparr>,
              \<lparr>name = loss_name pself @ ''_weight'', val = weight pself, prog_bar = None\<rparr>])"
    unfolding PCALoss_call_iff using a m by (simp add: log_loss_def)
next
  show "UnimodalLoss_call uself up uh stg =
     (if length up \<noteq> length uh then Inl TypeError
      else case reshape_b_m1_2 up of
        Inl err \<Rightarrow> Inl err
      | Inr kp \<Rightarrow>
          (case generate_heatmaps uself kp (original_image_height uself)
                  (original_image_width uself)
                  (downsampled_image_height uself, downsampled_image_width uself) of
             Inl err \<Rightarrow> Inl err
           | Inr ideal \<Rightarrow>
               (case UnimodalLoss_compute_loss uself ideal uh of
                  Inl err \<Rightarrow> Inl err
                | Inr el \<Rightarrow> reduce_log_return uself el stg)))"
    by (simp add: UnimodalLoss_call_def)
next
  show "UnimodalLoss_call (uself\<lparr>epsilon := e\<rparr>) up uh stg = UnimodalLoss_call uself up uh stg"
    by (simp add: UnimodalLoss_call_def cong: sum.case_cong)
next
  show "HeatmapLoss_call hcls (hself\<lparr>epsilon := e\<rparr>) ht hp stg
      = HeatmapLoss_call hcls hself ht hp stg"
    by (simp add: HeatmapLoss_call_def cong: sum.case_cong prod.case_cong)
next
  show "RegressionMSELoss_call rcls (rself\<lparr>epsilon := e\<rparr>) rt rp stg
     = RegressionMSELoss_call rcls rself rt rp stg"
    by (simp add: RegressionMSELoss_call_def cong: sum.case_cong prod.case_cong)
qed

theorem rectify_epsilon_in_pipeline_witness:
  "TemporalLoss_compute_loss [[Fin 0, Fin 0], [Fin 3, Fin 4], [Fin 3, Fin 4]]
     = Inr [[Fin 5], [Fin 0]] \<and>
   fl_lt (Fin 5) (epsilon (TemporalLoss_init (Fin 10) (Fin 0))) \<and>
   TemporalLoss_call (TemporalLoss_init (Fin 10) (Fin 0))
       [[Fin 0, Fin 0], [Fin 3, Fin 4], [Fin 3, Fin 4]] (Some Train)
     = Inr (Fin 0,
            [\<lparr>name = ''train_temporal_loss'', val = Fin 0, prog_bar = Some True\<rparr>,
             \<lparr>name = ''temporal_weight'', val = Fin (1 / 2), prog_bar = None\<rparr>]) \<and>
   TemporalLoss_call (TemporalLoss_init (Fin 0) (Fin 0))
       [[Fin 0, Fin 0], [Fin 3, Fin 4], [Fin 3, Fin 4]] (Some Train)
     = Inr (Fin (5 / 4),
            [\<lparr>name = ''train_temporal_loss'', val = Fin (5 / 2), prog_bar = Some True\<rparr>,
             \<lparr>name = ''temporal_weight'', val = Fin (1 / 2), prog_bar = None\<rparr>])"
proof -
  let ?s = "TemporalLoss_init (Fin 10) (Fin 0)"
  let ?p = "[[Fin 0, Fin 0], [Fin 3, Fin 4], [Fin 3, Fin 4]] :: tensor2"
  have c: "TemporalLoss_compute_loss ?p = Inr [[Fin 5], [Fin 0]]"
    by (simp add: eval_defs)
  have lt: "fl_lt (Fin 5) (epsilon ?s)"
    by (simp add: TemporalLoss_init_def Loss_init_def)
  have h: "TemporalLoss_compute_loss ?p = Inr [[Fin 5], [Fin 0]] \<and>
      concat [[Fin 5], [Fin 0]] \<noteq> [] \<and>
      (\<forall>x\<in>set (concat [[Fin 5], [Fin 0]]). fl_lt x (epsilon ?s))"
    using c by (simp add: TemporalLoss_init_def Loss_init_def)
  note r = rectify_epsilon_in_pipeline [where tself = ?s and tp = ?p
      and tel = "[[Fin 5], [Fin 0]]" and st = Train]
  from r h have "TemporalLoss_call ?s ?p (Some Train) =
        Inr (fl_mul (weight ?s) (Fin 0),
             [\<lparr>name = stage_str Train @ ''_'' @ loss_name ?s @ ''_loss'', val = Fin 0,
                 prog_bar = Some True\<rparr>,
              \<lparr>name = loss_name ?s @ ''_weight'', val = weight ?s, prog_bar = None\<rparr>])"
    by blast
  then have a: "TemporalLoss_call ?s ?p (Some Train)
     = Inr (Fin 0,
            [\<lparr>name = ''train_temporal_loss'', val = Fin 0, prog_bar = Some True\<rparr>,
             \<lparr>name = ''temporal_weight'', val = Fin (1 / 2), prog_bar = None\<rparr>])"
    by (simp add: eval_defs)
  have b: "TemporalLoss_call (TemporalLoss_init (Fin 0) (Fin 0)) ?p (Some Train)
     = Inr (Fin (5 / 4),
            [\<lparr>name = ''train_temporal_loss'', val = Fin (5 / 2), prog_bar = Some True\<rparr>,
             \<lparr>name = ''temporal_weight'', val = Fin (1 / 2), prog_bar = None\<rparr>])"
    by (simp add: eval_defs)
  from c lt a b show ?thesis by blast
qed

end
